theory Spec2Isabelle
  imports Complex_Main "HOL-Library.Multiset"
begin

section \<open>JavaScript values\<close>

subsection \<open>Numbers\<close>

text \<open>
  A JavaScript number is an IEEE-754 double. The model keeps the finite numbers as exact
  rationals and adds \<open>NaN\<close>, which the engine produces here when a non-number takes
  part in a product. The rounding error of binary floating point and the overflow to
  \<open>Infinity\<close> are outside the model: a decimal literal such as \<open>0.12\<close> stands for the
  rational \<open>12/100\<close>. Every operator propagates \<open>NaN\<close>; a comparison with \<open>NaN\<close> is false.
  This exact model carries the properties of structure and order; the values that the
  arithmetic of the engine returns are stated in the binary64 model of the next subsection.
\<close>

datatype number = Num rat | NaN

fun js_add :: "number \<Rightarrow> number \<Rightarrow> number" where
  "js_add (Num x) (Num y) = Num (x + y)"
| "js_add _ _ = NaN"

fun js_sub :: "number \<Rightarrow> number \<Rightarrow> number" where
  "js_sub (Num x) (Num y) = Num (x - y)"
| "js_sub _ _ = NaN"

fun js_mul :: "number \<Rightarrow> number \<Rightarrow> number" where
  "js_mul (Num x) (Num y) = Num (x * y)"
| "js_mul _ _ = NaN"

text \<open>
  The quotient by zero is \<open>NaN\<close> for \<open>0 / 0\<close> and an infinity otherwise; the model has no
  infinity and gives \<open>NaN\<close> for both. The program divides by the constants 2, 100, 10000
  and \<open>KG_PER_CREDIT\<close>, and by a baseline only under the test \<open>baseline > 0\<close>.
\<close>

fun js_div :: "number \<Rightarrow> number \<Rightarrow> number" where
  "js_div (Num x) (Num y) = (if y = 0 then NaN else Num (x / y))"
| "js_div _ _ = NaN"

fun js_gt :: "number \<Rightarrow> number \<Rightarrow> bool" where
  "js_gt (Num x) (Num y) = (y < x)"
| "js_gt _ _ = False"

fun js_le :: "number \<Rightarrow> number \<Rightarrow> bool" where
  "js_le (Num x) (Num y) = (x \<le> y)"
| "js_le _ _ = False"

text \<open>\<open>Math.round\<close>: the nearest integer, a tie going towards plus infinity.\<close>

fun Math_round :: "number \<Rightarrow> number" where
  "Math_round (Num x) = Num (of_int \<lfloor>x + 1 / 2\<rfloor>)"
| "Math_round NaN = NaN"

subsection \<open>Numbers in binary64\<close>

text \<open>
  The IEEE-754 binary64 numbers: a finite number, held as the exact rational that it is
  (\<open>m * 2^k\<close> with \<open>|m| < 2^53\<close> and \<open>-1074 \<le> k \<le> 971\<close>; \<open>Finite 0\<close> is \<open>+0\<close>), \<open>-0\<close>, the
  two infinities and \<open>NaN\<close>.
\<close>

datatype binary64 = Finite rat | MinusZero | PlusInfinity | MinusInfinity | NaN64

text \<open>The number of binary digits of a positive integer.\<close>

function bit_length :: "int \<Rightarrow> int" where
  "bit_length n = (if n \<le> 0 then 0 else 1 + bit_length (n div 2))"
  by pat_completeness auto
termination
  by (relation "measure nat") auto

declare bit_length.simps [simp del]

text \<open>\<open>floor_log2 a\<close> is the integer \<open>e\<close> with \<open>2^e \<le> a < 2^(e+1)\<close>, for a positive \<open>a\<close>.\<close>

definition floor_log2 :: "rat \<Rightarrow> int" where
  "floor_log2 a =
     (let (p, q) = quotient_of a;
          g = bit_length p - bit_length q
      in if 2 powi g \<le> a then g else g - 1)"

text \<open>The nearest integer, a tie going to the even one.\<close>

definition round_half_even :: "rat \<Rightarrow> int" where
  "round_half_even r =
     (let f = \<lfloor>r\<rfloor>; d = r - of_int f
      in if d < 1 / 2 then f else if 1 / 2 < d then f + 1 else if even f then f else f + 1)"

text \<open>
  \<open>to_binary64 x\<close> is the binary64 number nearest to the real number \<open>x\<close>: 53 significant
  binary digits, or fewer below \<open>2^-1022\<close>, where the spacing stays \<open>2^-1074\<close>; a tie goes
  to the even significand; a result of magnitude \<open>2^1024\<close> or more is the infinity, a
  result that vanishes is the zero of the sign of \<open>x\<close>. It is the value of a decimal
  literal, and each arithmetic operation returns it for its exact result.
\<close>

definition to_binary64 :: "rat \<Rightarrow> binary64" where
  "to_binary64 x =
     (if x = 0 then Finite 0
      else
        (let a = \<bar>x\<bar>;
             k = max (floor_log2 a) (- 1022) - 52;
             m = round_half_even (a / 2 powi k);
             v = of_int m * 2 powi k
         in if 2 powi 1024 \<le> v then (if x < 0 then MinusInfinity else PlusInfinity)
            else if m = 0 then (if x < 0 then MinusZero else Finite 0)
            else Finite (if x < 0 then - v else v)))"

text \<open>
  The operators \<open>+\<close>, \<open>-\<close>, \<open>*\<close>, \<open>/\<close> and \<open>>\<close> of the language on binary64 numbers, with
  the IEEE rules for \<open>NaN\<close>, the infinities and the sign of a zero result.
\<close>

fun is_nan64 :: "binary64 \<Rightarrow> bool" where
  "is_nan64 NaN64 = True"
| "is_nan64 _ = False"

fun is_inf64 :: "binary64 \<Rightarrow> bool" where
  "is_inf64 PlusInfinity = True"
| "is_inf64 MinusInfinity = True"
| "is_inf64 _ = False"

fun val64 :: "binary64 \<Rightarrow> rat" where
  "val64 (Finite x) = x"
| "val64 _ = 0"

fun sign64 :: "binary64 \<Rightarrow> bool" where
  "sign64 (Finite x) = (x < 0)"
| "sign64 MinusZero = True"
| "sign64 MinusInfinity = True"
| "sign64 _ = False"

definition is_zero64 :: "binary64 \<Rightarrow> bool" where
  "is_zero64 a \<longleftrightarrow> a = Finite 0 \<or> a = MinusZero"

definition zero64 :: "bool \<Rightarrow> binary64" where
  "zero64 negative = (if negative then MinusZero else Finite 0)"

definition inf64 :: "bool \<Rightarrow> binary64" where
  "inf64 negative = (if negative then MinusInfinity else PlusInfinity)"

fun neg64 :: "binary64 \<Rightarrow> binary64" where
  "neg64 (Finite x) = (if x = 0 then MinusZero else Finite (- x))"
| "neg64 MinusZero = Finite 0"
| "neg64 PlusInfinity = MinusInfinity"
| "neg64 MinusInfinity = PlusInfinity"
| "neg64 NaN64 = NaN64"

fun add64 :: "binary64 \<Rightarrow> binary64 \<Rightarrow> binary64" where
  "add64 a b =
     (if is_nan64 a \<or> is_nan64 b then NaN64
      else if is_inf64 a then (if is_inf64 b \<and> sign64 a \<noteq> sign64 b then NaN64 else a)
      else if is_inf64 b then b
      else if val64 a + val64 b = 0
      then (if is_zero64 a \<and> is_zero64 b \<and> sign64 a \<and> sign64 b then MinusZero else Finite 0)
      else to_binary64 (val64 a + val64 b))"

definition sub64 :: "binary64 \<Rightarrow> binary64 \<Rightarrow> binary64" where
  "sub64 a b = add64 a (neg64 b)"

fun mul64 :: "binary64 \<Rightarrow> binary64 \<Rightarrow> binary64" where
  "mul64 a b =
     (if is_nan64 a \<or> is_nan64 b then NaN64
      else if is_inf64 a \<or> is_inf64 b
      then (if is_zero64 a \<or> is_zero64 b then NaN64 else inf64 (sign64 a \<noteq> sign64 b))
      else if val64 a * val64 b = 0 then zero64 (sign64 a \<noteq> sign64 b)
      else to_binary64 (val64 a * val64 b))"

fun div64 :: "binary64 \<Rightarrow> binary64 \<Rightarrow> binary64" where
  "div64 a b =
     (if is_nan64 a \<or> is_nan64 b then NaN64
      else if is_inf64 a then (if is_inf64 b then NaN64 else inf64 (sign64 a \<noteq> sign64 b))
      else if is_inf64 b then zero64 (sign64 a \<noteq> sign64 b)
      else if is_zero64 b then (if is_zero64 a then NaN64 else inf64 (sign64 a \<noteq> sign64 b))
      else if is_zero64 a then zero64 (sign64 a \<noteq> sign64 b)
      else to_binary64 (val64 a / val64 b))"

declare add64.simps [simp del] mul64.simps [simp del] div64.simps [simp del]

definition gt64 :: "binary64 \<Rightarrow> binary64 \<Rightarrow> bool" where
  "gt64 a b \<longleftrightarrow>
     \<not> is_nan64 a \<and> \<not> is_nan64 b \<and>
     (if a = PlusInfinity then b \<noteq> PlusInfinity
      else if a = MinusInfinity \<or> b = PlusInfinity then False
      else if b = MinusInfinity then True
      else val64 b < val64 a)"

text \<open>
  \<open>Math.round\<close> on binary64: the nearest integer, a tie going towards plus infinity; \<open>-0\<close>
  for an argument from \<open>-0.5\<close> up to \<open>-0\<close>. The result is always a binary64 number.
\<close>

fun Math_round64 :: "binary64 \<Rightarrow> binary64" where
  "Math_round64 (Finite x) =
     (if - (1 / 2) \<le> x \<and> x < 0 then MinusZero else Finite (of_int \<lfloor>x + 1 / 2\<rfloor>))"
| "Math_round64 a = a"

subsection \<open>Strings\<close>

text \<open>
  A JavaScript string is a sequence of UTF-16 code units, here the list of their values
  (each below 65536); \<open>===\<close> on strings is equality of the sequences. \<open>ascii\<close> writes
  a literal whose characters are all ASCII.
\<close>

type_synonym js_string = "nat list"

definition ascii :: "string \<Rightarrow> js_string" where
  "ascii s = map of_char s"

text \<open>
  \<open>s.trim()\<close> removes the white space and line terminators of ECMAScript from both ends:
  TAB, LF, VT, FF, CR, SPACE, NBSP, U+1680, U+2000 to U+200A, U+2028, U+2029, U+202F,
  U+205F, U+3000 and U+FEFF.
\<close>

definition is_whitespace :: "nat \<Rightarrow> bool" where
  "is_whitespace c \<longleftrightarrow>
     c \<in> {9, 10, 11, 12, 13, 32, 160, 5760, 8232, 8233, 8239, 8287, 12288, 65279}
     \<or> (8192 \<le> c \<and> c \<le> 8202)"

definition trim :: "js_string \<Rightarrow> js_string" where
  "trim s = rev (dropWhile is_whitespace (rev (dropWhile is_whitespace s)))"

text \<open>
  \<open>s.toLowerCase()\<close> is modelled on the code units below 256 (Basic Latin and Latin-1
  Supplement, which hold every character of the route catalog): \<open>A\<close> to \<open>Z\<close> and U+00C0
  to U+00DE without the multiplication sign U+00D7 move up by 32. The code units from 256
  on are left as they are; the case mappings of the other scripts are outside the model.
\<close>

definition lower_unit :: "nat \<Rightarrow> nat" where
  "lower_unit c =
     (if (65 \<le> c \<and> c \<le> 90) \<or> (192 \<le> c \<and> c \<le> 222 \<and> c \<noteq> 215) then c + 32 else c)"

definition toLowerCase :: "js_string \<Rightarrow> js_string" where
  "toLowerCase s = map lower_unit s"

text \<open>\<open>s.split(',')[0]\<close>: the code units before the first comma (U+002C), all of \<open>s\<close> when it has none.\<close>

definition split_comma_first :: "js_string \<Rightarrow> js_string" where
  "split_comma_first s = takeWhile (\<lambda>c. c \<noteq> 44) s"

subsection \<open>Property lookup\<close>

text \<open>
  \<open>obj[key]\<close> on an object literal of numbers yields the own property when there is one,
  else the property inherited from \<open>Object.prototype\<close> (a function or an object, never a
  number), else \<open>undefined\<close>. \<open>for (key in obj)\<close> visits the own string keys in the
  order of their declaration; the inherited ones are not enumerable.
\<close>

datatype js_value = Undefined | Number number | Inherited

definition Object_prototype_names :: "js_string list" where
  "Object_prototype_names = map ascii
     [''constructor'', ''hasOwnProperty'', ''isPrototypeOf'', ''propertyIsEnumerable'',
      ''toLocaleString'', ''toString'', ''valueOf'', ''__proto__'',
      ''__defineGetter__'', ''__defineSetter__'', ''__lookupGetter__'', ''__lookupSetter__'']"

definition get_property :: "(js_string \<times> number) list \<Rightarrow> js_string \<Rightarrow> js_value" where
  "get_property obj key =
     (case map_of obj key of
        Some v \<Rightarrow> Number v
      | None \<Rightarrow> if key \<in> set Object_prototype_names then Inherited else Undefined)"

text \<open>\<open>x * v\<close> converts \<open>v\<close> to a number first: a function, an object and \<open>undefined\<close> give \<open>NaN\<close>.\<close>

fun ToNumber :: "js_value \<Rightarrow> number" where
  "ToNumber (Number n) = n"
| "ToNumber Undefined = NaN"
| "ToNumber Inherited = NaN"

subsection \<open>Array.prototype.sort\<close>

text \<open>
  \<open>xs.sort(cmp)\<close> is a stable sort (ECMAScript 2019): \<open>a\<close> moves behind \<open>b\<close> only when
  \<open>cmp(a, b) > 0\<close>. The model is the insertion sort with that test.
\<close>

fun js_insert :: "('a \<Rightarrow> 'a \<Rightarrow> number) \<Rightarrow> 'a \<Rightarrow> 'a list \<Rightarrow> 'a list" where
  "js_insert cmp x [] = [x]"
| "js_insert cmp x (y # ys) =
     (if js_gt (cmp x y) (Num 0) then y # js_insert cmp x ys else x # y # ys)"

definition js_sort :: "('a \<Rightarrow> 'a \<Rightarrow> number) \<Rightarrow> 'a list \<Rightarrow> 'a list" where
  "js_sort cmp xs = foldr (js_insert cmp) xs []"

section \<open>RoutesDB\<close>

record route =
  origin :: js_string
  destination :: js_string
  distanceKm :: number

text \<open>
  The catalog, in the order of its declaration. The letters outside ASCII are written as
  their code units: 225 a-acute, 226 a-circumflex, 227 a-tilde, 231 c-cedilla, 237 i-acute,
  243 o-acute.
\<close>

definition routes :: "route list" where
  "routes =
     [
      \<lparr>origin = ascii ''S'' @ [227] @ ascii ''o Paulo, SP'',
       destination = ascii ''Rio de Janeiro, RJ'', distanceKm = Num 430\<rparr>,
      \<lparr>origin = ascii ''S'' @ [227] @ ascii ''o Paulo, SP'',
       destination = ascii ''Bras'' @ [237] @ ascii ''lia, DF'', distanceKm = Num 1015\<rparr>,
      \<lparr>origin = ascii ''Rio de Janeiro, RJ'',
       destination = ascii ''Bras'' @ [237] @ ascii ''lia, DF'', distanceKm = Num 1148\<rparr>,
      \<lparr>origin = ascii ''S'' @ [227] @ ascii ''o Paulo, SP'',
       destination = ascii ''Belo Horizonte, MG'', distanceKm = Num 586\<rparr>,
      \<lparr>origin = ascii ''Rio de Janeiro, RJ'',
       destination = ascii ''Belo Horizonte, MG'', distanceKm = Num 716\<rparr>,
      \<lparr>origin = ascii ''S'' @ [227] @ ascii ''o Paulo, SP'',
       destination = ascii ''Salvador, BA'', distanceKm = Num 1945\<rparr>,
      \<lparr>origin = ascii ''Rio de Janeiro, RJ'',
       destination = ascii ''Salvador, BA'', distanceKm = Num 1959\<rparr>,
      \<lparr>origin = ascii ''S'' @ [227] @ ascii ''o Paulo, SP'',
       destination = ascii ''Curitiba, PR'', distanceKm = Num 408\<rparr>,
      \<lparr>origin = ascii ''S'' @ [227] @ ascii ''o Paulo, SP'',
       destination = ascii ''Manaus, AM'', distanceKm = Num 3150\<rparr>,
      \<lparr>origin = ascii ''S'' @ [227] @ ascii ''o Paulo, SP'',
       destination = ascii ''Recife, PE'', distanceKm = Num 2430\<rparr>,
      \<lparr>origin = ascii ''S'' @ [227] @ ascii ''o Paulo, SP'',
       destination = ascii ''Campinas, SP'', distanceKm = Num 95\<rparr>,
      \<lparr>origin = ascii ''S'' @ [227] @ ascii ''o Paulo, SP'',
       destination = ascii ''Santos, SP'', distanceKm = Num 70\<rparr>,
      \<lparr>origin = ascii ''S'' @ [227] @ ascii ''o Paulo, SP'',
       destination = ascii ''Sorocaba, SP'', distanceKm = Num 108\<rparr>,
      \<lparr>origin = ascii ''S'' @ [227] @ ascii ''o Paulo, SP'',
       destination = ascii ''Ribeir'' @ [227] @ ascii ''o Preto, SP'', distanceKm = Num 312\<rparr>,
      \<lparr>origin = ascii ''Campinas, SP'',
       destination = ascii ''Ribeir'' @ [227] @ ascii ''o Preto, SP'', distanceKm = Num 217\<rparr>,
      \<lparr>origin = ascii ''Rio de Janeiro, RJ'',
       destination = ascii ''Niter'' @ [243] @ ascii ''i, RJ'', distanceKm = Num 13\<rparr>,
      \<lparr>origin = ascii ''Rio de Janeiro, RJ'',
       destination = ascii ''Duque de Caxias, RJ'', distanceKm = Num 35\<rparr>,
      \<lparr>origin = ascii ''Rio de Janeiro, RJ'',
       destination = ascii ''Petr'' @ [243] @ ascii ''polis, RJ'', distanceKm = Num 68\<rparr>,
      \<lparr>origin = ascii ''Rio de Janeiro, RJ'',
       destination = ascii ''Angra dos Reis, RJ'', distanceKm = Num 165\<rparr>,
      \<lparr>origin = ascii ''Belo Horizonte, MG'',
       destination = ascii ''Ouro Preto, MG'', distanceKm = Num 100\<rparr>,
      \<lparr>origin = ascii ''Belo Horizonte, MG'',
       destination = ascii ''Montes Claros, MG'', distanceKm = Num 418\<rparr>,
      \<lparr>origin = ascii ''Belo Horizonte, MG'',
       destination = ascii ''Juiz de Fora, MG'', distanceKm = Num 290\<rparr>,
      \<lparr>origin = ascii ''Belo Horizonte, MG'',
       destination = ascii ''Uberaba, MG'', distanceKm = Num 467\<rparr>,
      \<lparr>origin = ascii ''Curitiba, PR'',
       destination = ascii ''Londrina, PR'', distanceKm = Num 398\<rparr>,
      \<lparr>origin = ascii ''Curitiba, PR'',
       destination = ascii ''Maring'' @ [225] @ ascii '', PR'', distanceKm = Num 409\<rparr>,
      \<lparr>origin = ascii ''Curitiba, PR'',
       destination = ascii ''Foz do Igua'' @ [231] @ ascii ''u, PR'', distanceKm = Num 645\<rparr>,
      \<lparr>origin = ascii ''Salvador, BA'',
       destination = ascii ''Feira de Santana, BA'', distanceKm = Num 110\<rparr>,
      \<lparr>origin = ascii ''Salvador, BA'',
       destination = ascii ''Vit'' @ [243] @ ascii ''ria da Conquista, BA'', distanceKm = Num 710\<rparr>,
      \<lparr>origin = ascii ''Salvador, BA'',
       destination = ascii ''Cama'' @ [231] @ ascii ''ari, BA'', distanceKm = Num 52\<rparr>,
      \<lparr>origin = ascii ''Fortaleza, CE'',
       destination = ascii ''Sobral, CE'', distanceKm = Num 240\<rparr>,
      \<lparr>origin = ascii ''Fortaleza, CE'',
       destination = ascii ''Juazeiro do Norte, CE'', distanceKm = Num 530\<rparr>,
      \<lparr>origin = ascii ''Recife, PE'',
       destination = ascii ''Olinda, PE'', distanceKm = Num 8\<rparr>,
      \<lparr>origin = ascii ''Recife, PE'',
       destination = ascii ''Caruaru, PE'', distanceKm = Num 134\<rparr>,
      \<lparr>origin = ascii ''Bras'' @ [237] @ ascii ''lia, DF'',
       destination = ascii ''Goi'' @ [226] @ ascii ''nia, GO'', distanceKm = Num 209\<rparr>,
      \<lparr>origin = ascii ''Goi'' @ [226] @ ascii ''nia, GO'',
       destination = ascii ''An'' @ [225] @ ascii ''polis, GO'', distanceKm = Num 54\<rparr>,
      \<lparr>origin = ascii ''Vit'' @ [243] @ ascii ''ria, ES'',
       destination = ascii ''Vila Velha, ES'', distanceKm = Num 25\<rparr>,
      \<lparr>origin = ascii ''Vit'' @ [243] @ ascii ''ria, ES'',
       destination = ascii ''Cachoeiro de Itapemirim, ES'', distanceKm = Num 115\<rparr>,
      \<lparr>origin = ascii ''Porto Alegre, RS'',
       destination = ascii ''Caxias do Sul, RS'', distanceKm = Num 230\<rparr>,
      \<lparr>origin = ascii ''Porto Alegre, RS'',
       destination = ascii ''Pelotas, RS'', distanceKm = Num 280\<rparr>]"

text \<open>
  The loop of \<open>findDistance\<close> over a catalog: the four tests of one route, in the order
  of the source, then the next route; \<open>None\<close> is the \<open>null\<close> returned after the loop.
\<close>

fun findDistance_loop :: "route list \<Rightarrow> js_string \<Rightarrow> js_string \<Rightarrow> number option" where
  "findDistance_loop [] normalizedOrigin normalizedDestination = None"
| "findDistance_loop (r # rs) normalizedOrigin normalizedDestination =
     (let routeOrigin = toLowerCase (origin r);
          routeDestination = toLowerCase (destination r)
      in if routeOrigin = normalizedOrigin \<and> routeDestination = normalizedDestination
         then Some (distanceKm r)
         else if routeOrigin = normalizedDestination \<and> routeDestination = normalizedOrigin
         then Some (distanceKm r)
         else
           (let routeOriginCity = trim (split_comma_first routeOrigin);
                routeDestinationCity = trim (split_comma_first routeDestination);
                originCity = trim (split_comma_first normalizedOrigin);
                destinationCity = trim (split_comma_first normalizedDestination)
            in if routeOriginCity = originCity \<and> routeDestinationCity = destinationCity
               then Some (distanceKm r)
               else if routeOriginCity = destinationCity \<and> routeDestinationCity = originCity
               then Some (distanceKm r)
               else findDistance_loop rs normalizedOrigin normalizedDestination))"

definition findDistance :: "js_string \<Rightarrow> js_string \<Rightarrow> number option" where
  "findDistance origin_label destination_label =
     (let normalizedOrigin = toLowerCase (trim origin_label);
          normalizedDestination = toLowerCase (trim destination_label)
      in findDistance_loop routes normalizedOrigin normalizedDestination)"


section \<open>CONFIG\<close>

definition EMISSION_FACTORS :: "(js_string \<times> number) list" where
  "EMISSION_FACTORS =
     [(ascii ''bicycle'', Num 0),
      (ascii ''car'', Num (12 / 100)),
      (ascii ''bus'', Num (89 / 1000)),
      (ascii ''truck'', Num (96 / 100))]"

definition KG_PER_CREDIT :: number where
  "KG_PER_CREDIT = Num 1000"

definition PRICE_MIN_BRL :: number where
  "PRICE_MIN_BRL = Num 50"

definition PRICE_MAX_BRL :: number where
  "PRICE_MAX_BRL = Num 150"

section \<open>Calculator\<close>

record mode_result =
  mode :: js_string
  emission :: number
  percentageVsCar :: number

text \<open>The two result objects below are generic in the model of their numbers.\<close>

record 'n savings_result =
  savedKg :: 'n
  percentage :: 'n

text \<open>The fields \<open>min\<close> and \<open>max\<close> of the price object are \<open>min_price\<close> and \<open>max_price\<close> here.\<close>

record 'n credit_price =
  min_price :: 'n
  max_price :: 'n
  average :: 'n

text \<open>
  \<open>calculateEmission\<close> has one effect, a line on \<open>console.error\<close>; \<open>calculateEmission_run\<close>
  returns the lines written together with the value returned to the caller.
\<close>

definition calculateEmission_run :: "number \<Rightarrow> js_string \<Rightarrow> js_string list \<times> number" where
  "calculateEmission_run distance transportMode =
     (let emissionFactor = get_property EMISSION_FACTORS transportMode in
      if emissionFactor = Undefined
      then ([ascii ''Invalid transport mode: '' @ transportMode], Num 0)
      else
        (let emission = js_mul distance (ToNumber emissionFactor)
         in ([], js_div (Math_round (js_mul emission (Num 100))) (Num 100))))"

definition calculateEmission :: "number \<Rightarrow> js_string \<Rightarrow> number" where
  "calculateEmission distance transportMode = snd (calculateEmission_run distance transportMode)"

definition calculateAllModes :: "number \<Rightarrow> mode_result list" where
  "calculateAllModes distance =
     (let carEmission = calculateEmission distance (ascii ''car'');
          results =
            map (\<lambda>m.
                  let e = calculateEmission distance m;
                      p = (if js_gt carEmission (Num 0)
                           then js_div (Math_round (js_mul (js_div e carEmission) (Num 10000))) (Num 100)
                           else Num 0)
                  in \<lparr>mode = m, emission = e, percentageVsCar = p\<rparr>)
                (map fst EMISSION_FACTORS)
      in js_sort (\<lambda>a b. js_sub (emission a) (emission b)) results)"


text \<open>
  \<open>calculateSavings\<close>, \<open>calculateCarbonCredits\<close> and \<open>estimateCreditPrice\<close> in binary64
  arithmetic, operation by operation as the source has them. \<open>binary64_of\<close> reads a
  constant of \<open>CONFIG\<close> as the binary64 number that the engine holds for it.
\<close>

fun binary64_of :: "number \<Rightarrow> binary64" where
  "binary64_of (Num x) = to_binary64 x"
| "binary64_of NaN = NaN64"

definition calculateSavings :: "binary64 \<Rightarrow> binary64 \<Rightarrow> binary64 savings_result" where
  "calculateSavings emission_kg baselineEmission =
     (let saved = div64 (Math_round64 (mul64 (sub64 baselineEmission emission_kg) (Finite 100))) (Finite 100);
          pct = (if gt64 baselineEmission (Finite 0)
                 then div64 (Math_round64 (mul64 (mul64 (div64 saved baselineEmission) (Finite 100)) (Finite 100))) (Finite 100)
                 else Finite 0)
      in \<lparr>savedKg = saved, percentage = pct\<rparr>)"

definition calculateCarbonCredits :: "binary64 \<Rightarrow> binary64" where
  "calculateCarbonCredits emissionKg =
     (let credits = div64 emissionKg (binary64_of KG_PER_CREDIT)
      in div64 (Math_round64 (mul64 credits (Finite 10000))) (Finite 10000))"

definition estimateCreditPrice_binary64 :: "binary64 \<Rightarrow> binary64 credit_price" where
  "estimateCreditPrice_binary64 credits =
     (let mn = div64 (Math_round64 (mul64 (mul64 credits (binary64_of PRICE_MIN_BRL)) (Finite 100))) (Finite 100);
          mx = div64 (Math_round64 (mul64 (mul64 credits (binary64_of PRICE_MAX_BRL)) (Finite 100))) (Finite 100);
          av = div64 (Math_round64 (mul64 (div64 (add64 mn mx) (Finite 2)) (Finite 100))) (Finite 100)
      in \<lparr>min_price = mn, max_price = mx, average = av\<rparr>)"

section \<open>Notions of the specification\<close>

subsection \<open>Rounding to decimals\<close>

text \<open>
  \<open>round(x, n)\<close> of the specification, with the rounding of the platform:
  \<open>Math.round(x * 10^n) / 10^n\<close> on exact numbers, a tie going towards plus infinity.
\<close>

definition round_dp :: "nat \<Rightarrow> rat \<Rightarrow> rat" where
  "round_dp n x = of_int \<lfloor>x * 10 ^ n + 1 / 2\<rfloor> / 10 ^ n"

text \<open>
  The same in binary64, as the engine computes it: \<open>Math.round(x * 100) / 100\<close>, each
  operation rounded to binary64.
\<close>

definition round2 :: "binary64 \<Rightarrow> binary64" where
  "round2 x = div64 (Math_round64 (mul64 x (Finite 100))) (Finite 100)"

text \<open>
  \<open>rounds_to z e v\<close>: the real number \<open>z\<close>, of binary exponent \<open>e\<close> in the normal range,
  has \<open>v\<close> as its value rounded to 53 binary digits.
\<close>

definition rounds_to :: "rat \<Rightarrow> int \<Rightarrow> rat \<Rightarrow> bool" where
  "rounds_to z e v \<longleftrightarrow>
     z \<noteq> 0 \<and> - 1022 \<le> e \<and> e \<le> 1022 \<and> 2 powi e \<le> \<bar>z\<bar> \<and> \<bar>z\<bar> < 2 powi (e + 1)
     \<and> v = sgn z * (of_int (round_half_even (\<bar>z\<bar> / 2 powi (e - 52))) * 2 powi (e - 52))"

text \<open>The rational held by a finite number.\<close>

fun num_val :: "number \<Rightarrow> rat" where
  "num_val (Num x) = x"
| "num_val NaN = 0"

subsection \<open>The two matching passes\<close>

text \<open>
  The matching policy in the words of the specification, on the labels after \<open>trim\<close> and
  \<open>toLowerCase\<close>: a route matches exactly when its two full labels are the two given
  labels, in either direction; it matches by bare city when the same holds of the parts
  before the first comma, compared without surrounding white space as in the source.
\<close>

definition exact_match :: "route \<Rightarrow> js_string \<Rightarrow> js_string \<Rightarrow> bool" where
  "exact_match r a b \<longleftrightarrow>
     (toLowerCase (origin r) = a \<and> toLowerCase (destination r) = b)
     \<or> (toLowerCase (origin r) = b \<and> toLowerCase (destination r) = a)"

definition bare_city :: "js_string \<Rightarrow> js_string" where
  "bare_city s = trim (split_comma_first s)"

definition city_match :: "route \<Rightarrow> js_string \<Rightarrow> js_string \<Rightarrow> bool" where
  "city_match r a b \<longleftrightarrow>
     (bare_city (toLowerCase (origin r)) = bare_city a
        \<and> bare_city (toLowerCase (destination r)) = bare_city b)
     \<or> (bare_city (toLowerCase (origin r)) = bare_city b
        \<and> bare_city (toLowerCase (destination r)) = bare_city a)"



text \<open>
  The pair of bare city names of a route. A catalog is unambiguous when no two of its
  routes join the same two cities, in either direction.
\<close>

definition route_cities :: "route \<Rightarrow> js_string \<times> js_string" where
  "route_cities r = (bare_city (toLowerCase (origin r)), bare_city (toLowerCase (destination r)))"

definition unambiguous :: "route list \<Rightarrow> bool" where
  "unambiguous rs \<longleftrightarrow>
     distinct (map route_cities rs @ map (\<lambda>r. prod.swap (route_cities r)) rs)"

subsection \<open>Variants of a label\<close>

text \<open>
  \<open>blank w\<close>: \<open>w\<close> is white space only. \<open>trimmed s\<close>: \<open>s\<close> is not empty and has no white
  space at either end. \<open>case_variant x y\<close>: \<open>x\<close> is \<open>y\<close> up to the case of its letters.
\<close>

definition blank :: "js_string \<Rightarrow> bool" where
  "blank w \<longleftrightarrow> list_all is_whitespace w"

definition trimmed :: "js_string \<Rightarrow> bool" where
  "trimmed s \<longleftrightarrow> s \<noteq> [] \<and> \<not> is_whitespace (hd s) \<and> \<not> is_whitespace (last s)"

definition case_variant :: "js_string \<Rightarrow> js_string \<Rightarrow> bool" where
  "case_variant x y \<longleftrightarrow> toLowerCase x = toLowerCase y"

definition plain_label :: "js_string \<Rightarrow> bool" where
  "plain_label s \<longleftrightarrow> trimmed s \<and> trimmed (split_comma_first s)"

subsection \<open>The results of calculateAllModes before the sort\<close>

text \<open>
  \<open>result_for d m\<close> is the object that the loop of \<open>calculateAllModes\<close> pushes for the mode
  \<open>m\<close> at the distance \<open>d\<close>; \<open>results_of d\<close> is the array when the loop ends.
\<close>

definition result_for :: "rat \<Rightarrow> js_string \<Rightarrow> mode_result" where
  "result_for d m =
     \<lparr>mode = m, emission = calculateEmission (Num d) m,
      percentageVsCar =
        (if js_gt (calculateEmission (Num d) (ascii ''car'')) (Num 0)
         then js_div (Math_round (js_mul (js_div (calculateEmission (Num d) m)
                (calculateEmission (Num d) (ascii ''car''))) (Num 10000))) (Num 100)
         else Num 0)\<rparr>"

definition results_of :: "rat \<Rightarrow> mode_result list" where
  "results_of d = map (result_for d) (map fst EMISSION_FACTORS)"

section \<open>Evaluation\<close>

lemma ascii_simps: "ascii [] = []" "ascii (c # cs) = of_char c # ascii cs"
  by (simp_all add: ascii_def)

lemma is_whitespace_numeral:
  "is_whitespace (numeral k) \<longleftrightarrow>
     numeral k \<in> {9, 10, 11, 12, 13, 32, 160, 5760, 8232, 8233, 8239, 8287, 12288, 65279 :: nat}
     \<or> (8192 \<le> (numeral k :: nat) \<and> (numeral k :: nat) \<le> 8202)"
  by (rule is_whitespace_def)

lemma lower_unit_numeral:
  "lower_unit (numeral k) =
     (if (65 \<le> (numeral k :: nat) \<and> (numeral k :: nat) \<le> 90)
         \<or> (192 \<le> (numeral k :: nat) \<and> (numeral k :: nat) \<le> 222 \<and> (numeral k :: nat) \<noteq> 215)
      then numeral k + 32 else numeral k)"
  by (rule lower_unit_def)

lemmas string_eval =
  ascii_simps is_whitespace_numeral lower_unit_numeral toLowerCase_def split_comma_first_def trim_def

section \<open>Strings\<close>

lemma lower_unit_whitespace: "is_whitespace (lower_unit c) = is_whitespace c"
  by (auto simp: lower_unit_def is_whitespace_def)

lemma lower_unit_comma: "lower_unit c = 44 \<longleftrightarrow> c = 44"
  by (auto simp: lower_unit_def)

lemma split_toLowerCase: "split_comma_first (toLowerCase s) = toLowerCase (split_comma_first s)"
  by (simp add: split_comma_first_def toLowerCase_def takeWhile_map comp_def lower_unit_comma)

lemma split_idem: "split_comma_first (split_comma_first s) = split_comma_first s"
  by (simp add: split_comma_first_def)

lemma trimmed_toLowerCase: "trimmed (toLowerCase s) = trimmed s"
  by (cases s rule: rev_cases) (auto simp: trimmed_def toLowerCase_def hd_map last_map lower_unit_whitespace hd_append)

lemma trim_padded:
  assumes "blank w1" "blank w2" "trimmed x"
  shows "trim (w1 @ x @ w2) = x"
proof -
  from assms(3) obtain c cs where x: "x = c # cs" and c: "\<not> is_whitespace c"
    by (cases x) (auto simp: trimmed_def)
  from assms(3) obtain ds d where x': "x = ds @ [d]" and d: "\<not> is_whitespace d"
    by (cases x rule: rev_cases) (auto simp: trimmed_def)
  have 1: "dropWhile is_whitespace (w1 @ x @ w2) = x @ w2"
    using assms(1) c by (simp add: x blank_def list_all_iff dropWhile_append3)
  have 2: "dropWhile is_whitespace (rev (x @ w2)) = rev x"
    using assms(2) d by (simp add: x' blank_def list_all_iff dropWhile_append3)
  show ?thesis unfolding trim_def 1 2 by simp
qed

lemma trim_trimmed: "trimmed s \<Longrightarrow> trim s = s"
  using trim_padded [of "[]" "[]" s] by (simp add: blank_def)

section \<open>RoutesDB: the loop\<close>

lemma exact_imp_city: "exact_match r a b \<Longrightarrow> city_match r a b"
  by (auto simp: exact_match_def city_match_def)

lemma loop_find:
  "findDistance_loop rs a b =
     map_option distanceKm (find (\<lambda>r. exact_match r a b \<or> city_match r a b) rs)"
  by (induction rs) (auto simp: Let_def exact_match_def city_match_def bare_city_def)

lemma loop_find_city:
  "findDistance_loop rs a b = map_option distanceKm (find (\<lambda>r. city_match r a b) rs)"
proof -
  have "(\<lambda>r. exact_match r a b \<or> city_match r a b) = (\<lambda>r. city_match r a b)"
    using exact_imp_city by blast
  then show ?thesis by (simp add: loop_find)
qed

lemma city_match_cities:
  "city_match r a b \<longleftrightarrow>
     route_cities r = (bare_city a, bare_city b) \<or> prod.swap (route_cities r) = (bare_city a, bare_city b)"
  by (auto simp: city_match_def route_cities_def)

lemma unambiguous_same:
  assumes "unambiguous rs" "r \<in> set rs" "r' \<in> set rs" "city_match r a b" "city_match r' a b"
  shows "r' = r"
proof -
  from assms(1) have d: "distinct (map route_cities rs)"
    and dj: "set (map route_cities rs) \<inter> set (map (\<lambda>r. prod.swap (route_cities r)) rs) = {}"
    by (simp_all add: unambiguous_def)
  from d have inj: "inj_on route_cities (set rs)" by (simp add: distinct_map)
  have no: "route_cities x \<noteq> prod.swap (route_cities y)" if "x \<in> set rs" "y \<in> set rs" for x y
    using dj that by auto
  from assms(4,5) consider "route_cities r = route_cities r'" | "route_cities r = prod.swap (route_cities r')"
    | "route_cities r' = prod.swap (route_cities r)"
    unfolding city_match_cities by (metis swap_swap)
  then show ?thesis
  proof cases
    case 1 then show ?thesis using inj assms(2,3) by (auto dest: inj_onD)
  next
    case 2 then show ?thesis using no assms(2,3) by blast
  next
    case 3 then show ?thesis using no assms(2,3) by blast
  qed
qed

lemma city_match_result:
  assumes "unambiguous rs" "r \<in> set rs" "city_match r a b"
  shows "findDistance_loop rs a b = Some (distanceKm r)"
proof -
  from assms(2,3) obtain r' where f: "find (\<lambda>r. city_match r a b) rs = Some r'"
    by (cases "find (\<lambda>r. city_match r a b) rs") (auto simp: find_None_iff)
  then have r': "r' \<in> set rs" "city_match r' a b"
    by (auto simp: find_Some_iff)
  have "r' = r" by (rule unambiguous_same [OF assms(1) assms(2) r'(1) assms(3) r'(2)])
  with f show ?thesis by (simp add: loop_find_city)
qed


section \<open>RoutesDB: the catalog\<close>

lemma unambiguous_routes: "unambiguous routes"
  unfolding unambiguous_def
  by (simp add: routes_def route_cities_def bare_city_def string_eval)

lemma plain_routes: "list_all (\<lambda>r. plain_label (origin r) \<and> plain_label (destination r)) routes"
  by (simp add: routes_def string_eval plain_label_def trimmed_def)

section \<open>RoutesDB: variants of a label\<close>

lemma trimmed_case_variant: "case_variant x y \<Longrightarrow> trimmed y \<Longrightarrow> trimmed x"
  by (metis case_variant_def trimmed_toLowerCase)

lemma bare_city_split: "bare_city (split_comma_first s) = bare_city s"
  by (simp add: bare_city_def split_idem)

lemma bare_city_variant:
  assumes "blank w1" "blank w2" "plain_label l"
    and "case_variant x l \<or> case_variant x (split_comma_first l)"
  shows "bare_city (toLowerCase (trim (w1 @ x @ w2))) = bare_city (toLowerCase l)"
proof -
  from assms(3) have t: "trimmed l" "trimmed (split_comma_first l)"
    by (simp_all add: plain_label_def)
  from assms(4) t have "trimmed x"
    by (auto intro: trimmed_case_variant)
  then have trim: "trim (w1 @ x @ w2) = x"
    using assms(1,2) by (rule trim_padded [rotated 2])
  from assms(4) show ?thesis
  proof
    assume "case_variant x l"
    then show ?thesis by (simp add: trim case_variant_def)
  next
    assume "case_variant x (split_comma_first l)"
    then have "toLowerCase x = split_comma_first (toLowerCase l)"
      by (simp add: case_variant_def split_toLowerCase)
    then show ?thesis by (simp add: trim bare_city_split)
  qed
qed

lemma findDistance_by_cities:
  assumes "R \<in> set routes"
    and "bare_city (toLowerCase (trim a)) = bare_city (toLowerCase (origin R))"
    and "bare_city (toLowerCase (trim b)) = bare_city (toLowerCase (destination R))"
  shows "findDistance a b = Some (distanceKm R)" and "findDistance b a = Some (distanceKm R)"
proof -
  have "city_match R (toLowerCase (trim a)) (toLowerCase (trim b))"
    and "city_match R (toLowerCase (trim b)) (toLowerCase (trim a))"
    using assms(2,3) by (simp_all add: city_match_def)
  then show "findDistance a b = Some (distanceKm R)" and "findDistance b a = Some (distanceKm R)"
    using assms(1) by (simp_all add: findDistance_def Let_def city_match_result [OF unambiguous_routes])
qed

lemma plain_route:
  assumes "R \<in> set routes"
  shows "plain_label (origin R)" and "plain_label (destination R)"
  using plain_routes assms by (auto simp: list_all_iff)

section \<open>RoutesDB: the claims\<close>

text \<open>
  Claim C8. For every route \<open>R\<close> of the catalog, \<open>findDistance(R.origin, R.destination)\<close>
  and \<open>findDistance(R.destination, R.origin)\<close> both return \<open>R.distanceKm\<close>: the lookup is
  symmetric in the two labels and returns the stored distance unchanged.
\<close>

theorem findDistance_known_route:
  assumes "R \<in> set routes"
  shows "findDistance (origin R) (destination R) = Some (distanceKm R)
       \<and> findDistance (destination R) (origin R) = Some (distanceKm R)"
proof -
  have "trim (origin R) = origin R" "trim (destination R) = destination R"
    using plain_route [OF assms] by (simp_all add: plain_label_def trim_trimmed)
  then show ?thesis
    using findDistance_by_cities [OF assms, of "origin R" "destination R"] by simp
qed

theorem findDistance_known_route_witness:
  "findDistance (ascii ''S'' @ [227] @ ascii ''o Paulo, SP'') (ascii ''Rio de Janeiro, RJ'') = Some (Num 430)
   \<and> findDistance (ascii ''Rio de Janeiro, RJ'') (ascii ''S'' @ [227] @ ascii ''o Paulo, SP'') = Some (Num 430)"
proof -
  have "\<lparr>origin = ascii ''S'' @ [227] @ ascii ''o Paulo, SP'',
         destination = ascii ''Rio de Janeiro, RJ'', distanceKm = Num 430\<rparr> \<in> set routes"
    by (simp add: routes_def)
  from findDistance_known_route [OF this] show ?thesis by simp
qed

text \<open>
  Claim C9. For every route \<open>R\<close> of the catalog, a query still returns \<open>R.distanceKm\<close> when
  each label is the stored label or the stored label without its region suffix (the part
  from the first comma on), with the case of any of its letters changed and white space
  added around it. The witness holds the two examples of the specification.
\<close>

theorem findDistance_normalized:
  assumes "R \<in> set routes"
    and "blank w1" "blank w2" "blank w3" "blank w4"
    and "case_variant x (origin R) \<or> case_variant x (split_comma_first (origin R))"
    and "case_variant y (destination R) \<or> case_variant y (split_comma_first (destination R))"
  shows "findDistance (w1 @ x @ w2) (w3 @ y @ w4) = Some (distanceKm R)"
proof -
  have "bare_city (toLowerCase (trim (w1 @ x @ w2))) = bare_city (toLowerCase (origin R))"
    using assms(2,3) plain_route(1) [OF assms(1)] assms(6) by (rule bare_city_variant)
  moreover have "bare_city (toLowerCase (trim (w3 @ y @ w4))) = bare_city (toLowerCase (destination R))"
    using assms(4,5) plain_route(2) [OF assms(1)] assms(7) by (rule bare_city_variant)
  ultimately show ?thesis
    using assms(1) by (rule findDistance_by_cities(1) [rotated])
qed

theorem findDistance_normalized_witness:
  "findDistance (ascii ''S'' @ [227] @ ascii ''o Paulo'') (ascii ''Rio de Janeiro'') = Some (Num 430)
   \<and> findDistance (ascii ''  s'' @ [227] @ ascii ''o paulo, sp '') (ascii ''RIO DE JANEIRO, RJ'') = Some (Num 430)"
proof -
  let ?R = "\<lparr>origin = ascii ''S'' @ [227] @ ascii ''o Paulo, SP'',
         destination = ascii ''Rio de Janeiro, RJ'', distanceKm = Num 430\<rparr>"
  have R: "?R \<in> set routes"
    by (simp add: routes_def)
  have b: "blank []" "blank (ascii ''  '')" "blank (ascii '' '')"
    by (simp_all add: blank_def string_eval)
  have 1: "case_variant (ascii ''S'' @ [227] @ ascii ''o Paulo'') (split_comma_first (origin ?R))"
    and 2: "case_variant (ascii ''Rio de Janeiro'') (split_comma_first (destination ?R))"
    and 3: "case_variant (ascii ''s'' @ [227] @ ascii ''o paulo, sp'') (origin ?R)"
    and 4: "case_variant (ascii ''RIO DE JANEIRO, RJ'') (destination ?R)"
    by (simp_all add: case_variant_def string_eval)
  have "findDistance ([] @ (ascii ''S'' @ [227] @ ascii ''o Paulo'') @ []) ([] @ ascii ''Rio de Janeiro'' @ []) = Some (distanceKm ?R)"
    using R b(1) b(1) b(1) b(1) disjI2 [OF 1] disjI2 [OF 2] by (rule findDistance_normalized)
  moreover have "findDistance (ascii ''  '' @ (ascii ''s'' @ [227] @ ascii ''o paulo, sp'') @ ascii '' '') ([] @ ascii ''RIO DE JANEIRO, RJ'' @ []) = Some (distanceKm ?R)"
    using R b(2) b(3) b(1) b(1) disjI1 [OF 3] disjI1 [OF 4] by (rule findDistance_normalized)
  ultimately show ?thesis by (simp add: ascii_def)
qed





section \<open>Numbers\<close>

lemma floor_rat_numeral_div: "\<lfloor>(numeral a :: rat) / numeral b\<rfloor> = numeral a div numeral b"
  using floor_divide_of_int_eq [of "numeral a" "numeral b", where ?'a = rat] by simp

lemma floor_rat_neg_numeral_div: "\<lfloor>- ((numeral a :: rat) / numeral b)\<rfloor> = - numeral a div numeral b"
  using floor_divide_of_int_eq [of "- numeral a" "numeral b", where ?'a = rat] by simp

lemma floor_rat_one_div: "\<lfloor>(1 :: rat) / numeral b\<rfloor> = 1 div numeral b"
  using floor_divide_of_int_eq [of 1 "numeral b", where ?'a = rat] by simp

lemmas round_eval = round_dp_def floor_rat_numeral_div floor_rat_neg_numeral_div floor_rat_one_div

lemma round2_js: "js_div (Math_round (Num (x * 100))) (Num 100) = Num (round_dp 2 x)"
  by (simp add: round_dp_def)


lemmas js_arith =
  js_add.simps js_sub.simps js_mul.simps js_gt.simps js_le.simps round2_js


section \<open>Binary64 arithmetic\<close>

lemma bit_length_bounds:
  "0 < n \<Longrightarrow> 1 \<le> bit_length n \<and> 2 ^ nat (bit_length n - 1) \<le> n \<and> n < 2 ^ nat (bit_length n)"
proof (induction n rule: bit_length.induct)
  case (1 n)
  show ?case
  proof (cases "n = 1")
    case True
    have "bit_length 1 = 1"
      by (simp add: bit_length.simps [of 1] bit_length.simps [of 0])
    then show ?thesis by (simp add: True)
  next
    case False
    with "1.prems" have h: "0 < n div 2" by simp
    from "1.prems" have nle: "\<not> n \<le> 0" by simp
    from "1.IH" [OF nle h] have b: "1 \<le> bit_length (n div 2)"
      and lo: "2 ^ nat (bit_length (n div 2) - 1) \<le> n div 2"
      and hi: "n div 2 < 2 ^ nat (bit_length (n div 2))" by simp_all
    have bl: "bit_length n = 1 + bit_length (n div 2)"
      using nle by (simp add: bit_length.simps [of n])
    have e1: "nat (bit_length n - 1) = Suc (nat (bit_length (n div 2) - 1))"
      using b bl by simp
    have e2: "nat (bit_length n) = Suc (nat (bit_length (n div 2)))"
      using b bl by simp
    from lo have 3: "2 ^ nat (bit_length n - 1) \<le> n"
      unfolding e1 power_Suc by linarith
    from hi have 4: "n < 2 ^ nat (bit_length n)"
      unfolding e2 power_Suc by linarith
    from b bl have "1 \<le> bit_length n" by simp
    with 3 4 show ?thesis by blast
  qed
qed

lemma bit_length_powi:
  assumes "0 < n"
  shows "2 powi (bit_length n - 1) \<le> (of_int n :: rat)" and "(of_int n :: rat) < 2 powi bit_length n"
proof -
  from bit_length_bounds [OF assms] have b: "1 \<le> bit_length n"
    and lo: "2 ^ nat (bit_length n - 1) \<le> n" and hi: "n < 2 ^ nat (bit_length n)" by simp_all
  have "(2 :: rat) powi (bit_length n - 1) = of_int (2 ^ nat (bit_length n - 1))"
    using b by (simp add: power_int_nonneg_exp)
  then show "2 powi (bit_length n - 1) \<le> (of_int n :: rat)"
    using lo by (simp only: of_int_le_iff)
  have "(2 :: rat) powi bit_length n = of_int (2 ^ nat (bit_length n))"
    using b by (simp add: power_int_nonneg_exp)
  then show "(of_int n :: rat) < 2 powi bit_length n"
    using hi by (simp only: of_int_less_iff)
qed

lemma powi2_quotient: "(2 :: rat) powi a / 2 powi b = 2 powi (a - b)"
  by (simp add: power_int_diff)

lemma powi2_product: "(2 :: rat) powi a * 2 powi b = 2 powi (a + b)"
  by (simp add: power_int_add)

lemma powi2_less_cancel: "(2 :: rat) powi a < 2 powi b \<Longrightarrow> a < b"
  by (rule ccontr) (simp add: not_less power_int_increasing leD)

lemma floor_log2_unique:
  assumes "0 < a" "2 powi e \<le> a" "a < 2 powi (e + 1)"
  shows "floor_log2 a = e"
proof -
  obtain p q where pq: "quotient_of a = (p, q)" by (cases "quotient_of a")
  then have q: "0 < q" and a: "a = of_int p / of_int q"
    by (simp_all add: quotient_of_denom_pos quotient_of_div)
  from assms(1) q have p: "0 < p"
    by (simp add: a zero_less_divide_iff)
  define g where "g = bit_length p - bit_length q"
  have qr: "(0 :: rat) < of_int q" using q by simp
  have "a < 2 powi bit_length p / 2 powi (bit_length q - 1)"
    unfolding a using bit_length_powi [OF p] bit_length_powi [OF q] qr p
    by (intro frac_less) simp_all
  also have "\<dots> = 2 powi (bit_length p - (bit_length q - 1))"
    by (rule powi2_quotient)
  also have "bit_length p - (bit_length q - 1) = g + 1"
    by (simp add: g_def)
  finally have up: "a < 2 powi (g + 1)" .
  have "2 powi (bit_length p - 1) / 2 powi bit_length q < a"
    unfolding a using bit_length_powi [OF p] bit_length_powi [OF q] qr p
    by (intro frac_less2) simp_all
  moreover have "2 powi (bit_length p - 1) / 2 powi bit_length q = (2 :: rat) powi (bit_length p - 1 - bit_length q)"
    by (rule powi2_quotient)
  moreover have "bit_length p - 1 - bit_length q = g - 1"
    by (simp add: g_def)
  ultimately have low: "2 powi (g - 1) < a" by simp
  have "2 powi e < (2 :: rat) powi (g + 1)" using assms(2) up by simp
  then have 1: "e \<le> g" using powi2_less_cancel by fastforce
  have "2 powi (g - 1) < (2 :: rat) powi (e + 1)" using assms(3) low by simp
  then have 2: "g - 1 \<le> e" using powi2_less_cancel by fastforce
  have fl: "floor_log2 a = (if 2 powi g \<le> a then g else g - 1)"
    by (simp add: floor_log2_def pq g_def)
  show ?thesis
  proof (cases "2 powi g \<le> a")
    case True
    then have "2 powi g < (2 :: rat) powi (e + 1)" using assms(3) by simp
    then have "g \<le> e" using powi2_less_cancel by fastforce
    with 1 True show ?thesis by (simp add: fl)
  next
    case False
    then have "2 powi e < (2 :: rat) powi g" using assms(2) by simp
    then have "e < g" by (rule powi2_less_cancel)
    with 2 False show ?thesis by (simp add: fl)
  qed
qed

lemma round_half_even_bounds: "\<lfloor>r\<rfloor> \<le> round_half_even r" "round_half_even r \<le> \<lfloor>r\<rfloor> + 1"
  by (simp_all add: round_half_even_def Let_def)

lemma to_binary64_cert:
  assumes "rounds_to z e v"
  shows "to_binary64 z = Finite v"
proof -
  from assms have z: "z \<noteq> 0" and e: "- 1022 \<le> e" "e \<le> 1022"
    and lo: "2 powi e \<le> \<bar>z\<bar>" and hi: "\<bar>z\<bar> < 2 powi (e + 1)"
    and v: "v = sgn z * (of_int (round_half_even (\<bar>z\<bar> / 2 powi (e - 52))) * 2 powi (e - 52))"
    by (simp_all add: rounds_to_def)
  define m where "m = round_half_even (\<bar>z\<bar> / 2 powi (e - 52))"
  have fl: "floor_log2 \<bar>z\<bar> = e"
    using z lo hi by (intro floor_log2_unique) simp_all
  have k: "max (floor_log2 \<bar>z\<bar>) (- 1022) - 52 = e - 52"
    using e by (simp add: fl)
  have pos: "(0 :: rat) < 2 powi (e - 52)" by simp
  have ex: "52 + (e - 52) = e" "53 + (e - 52) = e + 1" by simp_all
  have "2 powi 52 * 2 powi (e - 52) = (2 :: rat) powi e"
    by (simp only: powi2_product ex)
  with lo have "2 powi 52 * 2 powi (e - 52) \<le> \<bar>z\<bar>" by simp
  then have "(2 :: rat) powi 52 \<le> \<bar>z\<bar> / 2 powi (e - 52)"
    using pos by (simp only: pos_le_divide_eq)
  moreover have "(2 :: rat) powi 52 = of_int (2 ^ 52)" by simp
  ultimately have "of_int (2 ^ 52) \<le> \<bar>z\<bar> / 2 powi (e - 52)"
    by (simp only:)
  then have "(2 :: int) ^ 52 \<le> \<lfloor>\<bar>z\<bar> / 2 powi (e - 52)\<rfloor>"
    by (simp only: le_floor_iff)
  then have m_lo: "2 ^ 52 \<le> m"
    using round_half_even_bounds(1) [of "\<bar>z\<bar> / 2 powi (e - 52)"] unfolding m_def by linarith
  have "2 powi 53 * 2 powi (e - 52) = (2 :: rat) powi (e + 1)"
    by (simp only: powi2_product ex)
  with hi have "\<bar>z\<bar> < 2 powi 53 * 2 powi (e - 52)" by simp
  then have "\<bar>z\<bar> / 2 powi (e - 52) < (2 :: rat) powi 53"
    using pos by (simp only: pos_divide_less_eq)
  moreover have "(2 :: rat) powi 53 = of_int (2 ^ 53)" by simp
  ultimately have "\<bar>z\<bar> / 2 powi (e - 52) < of_int (2 ^ 53)"
    by (simp only:)
  then have "\<lfloor>\<bar>z\<bar> / 2 powi (e - 52)\<rfloor> < (2 :: int) ^ 53"
    by (simp only: floor_less_iff)
  then have m_hi: "m \<le> 2 ^ 53"
    using round_half_even_bounds(2) [of "\<bar>z\<bar> / 2 powi (e - 52)"] unfolding m_def by linarith
  then have "(of_int m :: rat) \<le> of_int (2 ^ 53)"
    by (simp only: of_int_le_iff)
  also have "(of_int (2 ^ 53) :: rat) = 2 powi 53" by simp
  finally have "of_int m * 2 powi (e - 52) \<le> (2 :: rat) powi 53 * 2 powi (e - 52)"
    using pos by (simp only: mult_le_cancel_right_pos)
  also have "\<dots> = 2 powi (e + 1)"
    by (simp only: powi2_product ex)
  also have "\<dots> < 2 powi 1024"
    using e by (intro power_int_strict_increasing) simp_all
  finally have no_over: "\<not> 2 powi 1024 \<le> of_int m * (2 :: rat) powi (e - 52)"
    by (simp only: not_le)
  have m0: "m \<noteq> 0" using m_lo by auto
  have "to_binary64 z =
      (if 2 powi 1024 \<le> of_int m * (2 :: rat) powi (e - 52)
       then (if z < 0 then MinusInfinity else PlusInfinity)
       else if m = 0 then (if z < 0 then MinusZero else Finite 0)
       else Finite (if z < 0 then - (of_int m * 2 powi (e - 52)) else of_int m * 2 powi (e - 52)))"
    using z unfolding to_binary64_def Let_def k m_def [symmetric] by (simp only: if_False)
  then have "to_binary64 z =
      Finite (if z < 0 then - (of_int m * 2 powi (e - 52)) else of_int m * 2 powi (e - 52))"
    using no_over m0 by (simp only: if_False)
  moreover have "(if z < 0 then - (of_int m * 2 powi (e - 52)) else of_int m * 2 powi (e - 52)) = v"
    unfolding v m_def [symmetric] using z by (simp add: sgn_if)
  ultimately show ?thesis by (simp only:)
qed

lemmas round64_eval = rounds_to_def round_half_even_def Let_def floor_rat_numeral_div

lemma add64_cert: "rounds_to (x + y) e v \<Longrightarrow> add64 (Finite x) (Finite y) = Finite v"
  by (simp add: add64.simps to_binary64_cert) (simp add: rounds_to_def)

lemma sub64_cert:
  assumes "rounds_to (x - y) e v"
  shows "sub64 (Finite x) (Finite y) = Finite v"
proof -
  from assms have "x - y \<noteq> 0" by (simp add: rounds_to_def)
  then have "sub64 (Finite x) (Finite y) = to_binary64 (x - y)"
    by (cases "y = 0") (simp_all add: sub64_def add64.simps)
  with assms show ?thesis by (simp add: to_binary64_cert)
qed

lemma mul64_cert: "rounds_to (x * y) e v \<Longrightarrow> mul64 (Finite x) (Finite y) = Finite v"
  by (simp add: mul64.simps to_binary64_cert) (auto simp add: rounds_to_def)

lemma div64_cert: "rounds_to (x / y) e v \<Longrightarrow> div64 (Finite x) (Finite y) = Finite v"
  by (simp add: div64.simps is_zero64_def to_binary64_cert) (auto simp add: rounds_to_def)

section \<open>Array.prototype.sort\<close>

lemma js_insert_insort:
  assumes "key x \<noteq> NaN" "\<forall>y \<in> set ys. key y \<noteq> NaN"
  shows "js_insert (\<lambda>a b. js_sub (key a) (key b)) x ys = insort_key (\<lambda>a. num_val (key a)) x ys"
  using assms(2)
proof (induction ys)
  case Nil
  show ?case by simp
next
  case (Cons y ys)
  from assms(1) obtain p where p: "key x = Num p" by (cases "key x") auto
  from Cons.prems obtain q where q: "key y = Num q" by (cases "key y") auto
  from Cons show ?case by (auto simp: p q)
qed

lemma js_sort_sort_key:
  assumes "\<forall>x \<in> set xs. key x \<noteq> NaN"
  shows "js_sort (\<lambda>a b. js_sub (key a) (key b)) xs = sort_key (\<lambda>a. num_val (key a)) xs"
  using assms
proof (induction xs)
  case Nil
  show ?case by (simp add: js_sort_def)
next
  case (Cons x xs)
  then have IH: "js_sort (\<lambda>a b. js_sub (key a) (key b)) xs = sort_key (\<lambda>a. num_val (key a)) xs"
    by simp
  have "\<forall>y \<in> set (sort_key (\<lambda>a. num_val (key a)) xs). key y \<noteq> NaN"
    using Cons.prems by simp
  with Cons.prems show ?case
    using IH by (simp add: js_sort_def js_insert_insort sort_key_def)
qed

lemma set_js_insert: "set (js_insert cmp x ys) = insert x (set ys)"
  by (induction ys) auto

lemma set_js_sort: "set (js_sort cmp xs) = set xs"
  by (induction xs) (simp_all add: js_sort_def set_js_insert)

section \<open>calculateEmission\<close>

lemma get_property_table:
  "get_property EMISSION_FACTORS (ascii ''bicycle'') = Number (Num 0)"
  "get_property EMISSION_FACTORS (ascii ''car'') = Number (Num (12 / 100))"
  "get_property EMISSION_FACTORS (ascii ''bus'') = Number (Num (89 / 1000))"
  "get_property EMISSION_FACTORS (ascii ''truck'') = Number (Num (96 / 100))"
  by (simp_all add: get_property_def EMISSION_FACTORS_def ascii_simps)

lemma calculateEmission_run_Number:
  assumes "get_property EMISSION_FACTORS m = Number (Num f)"
  shows "calculateEmission_run (Num d) m = ([], Num (round_dp 2 (d * f)))"
  unfolding calculateEmission_run_def Let_def assms
  by (simp only: js_value.distinct if_False ToNumber.simps js_arith)


lemma calculateEmission_keys:
  "calculateEmission (Num d) (ascii ''bicycle'') = Num (round_dp 2 (d * 0))"
  "calculateEmission (Num d) (ascii ''car'') = Num (round_dp 2 (d * (12 / 100)))"
  "calculateEmission (Num d) (ascii ''bus'') = Num (round_dp 2 (d * (89 / 1000)))"
  "calculateEmission (Num d) (ascii ''truck'') = Num (round_dp 2 (d * (96 / 100)))"
  by (simp_all only: calculateEmission_def calculateEmission_run_Number [OF get_property_table(1)]
      calculateEmission_run_Number [OF get_property_table(2)]
      calculateEmission_run_Number [OF get_property_table(3)]
      calculateEmission_run_Number [OF get_property_table(4)] snd_conv)

lemma plane:
  "ascii ''plane'' \<notin> set (map fst EMISSION_FACTORS)" "ascii ''plane'' \<notin> set Object_prototype_names"
  by (simp_all add: EMISSION_FACTORS_def Object_prototype_names_def ascii_simps)

text \<open>
  Claim C1, as amended. For every mode identifier that is neither a key of the factor
  table nor a property name inherited from \<open>Object.prototype\<close>, and every distance,
  \<open>calculateEmission\<close> writes \<open>Invalid transport mode: <mode>\<close> on \<open>console.error\<close> and
  returns 0 to the caller; it raises nothing and returns no error value.
\<close>

theorem calculateEmission_unknown_mode:
  assumes "m \<notin> set (map fst EMISSION_FACTORS)" "m \<notin> set Object_prototype_names"
  shows "calculateEmission_run d m = ([ascii ''Invalid transport mode: '' @ m], Num 0)"
proof -
  from assms(1) have "map_of EMISSION_FACTORS m = None"
    by (simp add: map_of_eq_None_iff)
  with assms(2) have "get_property EMISSION_FACTORS m = Undefined"
    by (simp add: get_property_def)
  then show ?thesis by (simp add: calculateEmission_run_def)
qed

theorem calculateEmission_unknown_mode_witness:
  "calculateEmission_run (Num 100) (ascii ''plane'')
     = ([ascii ''Invalid transport mode: plane''], Num 0)"
  using calculateEmission_unknown_mode [OF plane, of "Num 100"] by (simp add: ascii_def)

text \<open>
  Claim C1 as stated fails: \<open>plane\<close> is not in the factor table, and the caller of
  \<open>calculateEmission(100, 'plane')\<close> receives the emission 0.
\<close>

theorem calculateEmission_silent_zero:
  "ascii ''plane'' \<notin> set (map fst EMISSION_FACTORS)
   \<and> calculateEmission (Num 100) (ascii ''plane'') = Num 0"
  by (simp add: plane(1) calculateEmission_def calculateEmission_run_def get_property_def
      EMISSION_FACTORS_def Object_prototype_names_def ascii_simps)

text \<open>
  A name inherited from \<open>Object.prototype\<close> is not \<open>undefined\<close> in the table: the product
  with the inherited function is \<open>NaN\<close>, and nothing is written.
\<close>

lemma calculateEmission_inherited_name:
  "calculateEmission_run (Num 100) (ascii ''toString'') = ([], NaN)"
  by (simp add: calculateEmission_run_def get_property_def EMISSION_FACTORS_def
      Object_prototype_names_def ascii_simps)

section \<open>calculateAllModes\<close>

lemma result_for_sel [simp]:
  "mode (result_for d m) = m" "emission (result_for d m) = calculateEmission (Num d) m"
  by (simp_all add: result_for_def)

lemma calculateEmission_table_Num:
  assumes "m \<in> set (map fst EMISSION_FACTORS)"
  shows "calculateEmission (Num d) m = Num (num_val (calculateEmission (Num d) m))"
  using assms calculateEmission_keys [of d] by (auto simp: EMISSION_FACTORS_def)

lemma results_of_emission:
  assumes "r \<in> set (results_of d)"
  shows "mode r \<in> set (map fst EMISSION_FACTORS)" and "emission r = calculateEmission (Num d) (mode r)"
    and "emission r \<noteq> NaN"
proof -
  from assms obtain m where m: "m \<in> set (map fst EMISSION_FACTORS)" and r: "r = result_for d m"
    unfolding results_of_def by (metis (no_types) imageE list.set_map)
  show "mode r \<in> set (map fst EMISSION_FACTORS)" "emission r = calculateEmission (Num d) (mode r)"
    using m by (simp_all add: r)
  show "emission r \<noteq> NaN"
    using calculateEmission_table_Num [OF m, of d] by (simp add: r) (metis number.distinct(1))
qed

lemma calculateAllModes_sort_key:
  "calculateAllModes (Num d) = sort_key (\<lambda>r. num_val (emission r)) (results_of d)"
proof -
  have "calculateAllModes (Num d) = js_sort (\<lambda>a b. js_sub (emission a) (emission b)) (results_of d)"
    unfolding calculateAllModes_def results_of_def result_for_def [abs_def] Let_def ..
  also have "\<dots> = sort_key (\<lambda>r. num_val (emission r)) (results_of d)"
    by (rule js_sort_sort_key) (simp add: results_of_emission(3))
  finally show ?thesis .
qed

lemma calculateAllModes_properties:
  fixes d :: rat
  defines "rs \<equiv> calculateAllModes (Num d)"
  shows "mset (map mode rs) = mset (map fst EMISSION_FACTORS)"
    and "\<forall>r \<in> set rs. emission r = calculateEmission (Num d) (mode r)"
    and "sorted_wrt (\<lambda>a b. js_le (emission a) (emission b)) rs"
    and "\<forall>x. map mode (filter (\<lambda>r. emission r = x) rs)
             = filter (\<lambda>m. calculateEmission (Num d) m = x) (map fst EMISSION_FACTORS)"
proof -
  let ?k = "\<lambda>r. num_val (emission r)"
  have rs: "rs = sort_key ?k (results_of d)"
    by (simp add: rs_def calculateAllModes_sort_key)
  have set_rs: "set rs = set (results_of d)" by (simp add: rs)
  have "mset rs = mset (results_of d)" by (simp add: rs)
  then have "mset (map mode rs) = mset (map mode (results_of d))"
    by (metis mset_map)
  also have "map mode (results_of d) = map fst EMISSION_FACTORS"
    by (simp add: results_of_def comp_def)
  finally show "mset (map mode rs) = mset (map fst EMISSION_FACTORS)" .
  show "\<forall>r \<in> set rs. emission r = calculateEmission (Num d) (mode r)"
    by (simp add: set_rs results_of_emission(2))
  have num: "emission r = Num (?k r)" if "r \<in> set rs" for r
    using results_of_emission(3) [of r d] that by (cases "emission r") (simp_all add: set_rs)
  have "sorted (map ?k rs)" by (simp add: rs)
  then have "sorted_wrt (\<lambda>a b. ?k a \<le> ?k b) rs"
    by (simp add: sorted_map)
  then show "sorted_wrt (\<lambda>a b. js_le (emission a) (emission b)) rs"
  proof (rule sorted_wrt_mono_rel [rotated])
    fix a b assume "a \<in> set rs" "b \<in> set rs" "?k a \<le> ?k b"
    then show "js_le (emission a) (emission b)"
      using num [of a] num [of b] by (metis js_le.simps(1))
  qed
  show "\<forall>x. map mode (filter (\<lambda>r. emission r = x) rs)
             = filter (\<lambda>m. calculateEmission (Num d) m = x) (map fst EMISSION_FACTORS)"
  proof
    fix x
    show "map mode (filter (\<lambda>r. emission r = x) rs)
             = filter (\<lambda>m. calculateEmission (Num d) m = x) (map fst EMISSION_FACTORS)"
    proof (cases x)
      case NaN
      have "filter (\<lambda>r. emission r = x) rs = []"
        using results_of_emission(3) by (auto simp: filter_empty_conv set_rs NaN)
      moreover have "filter (\<lambda>m. calculateEmission (Num d) m = x) (map fst EMISSION_FACTORS) = []"
        unfolding filter_empty_conv NaN using calculateEmission_table_Num [of _ d] by (metis number.distinct(1))
      ultimately show ?thesis by simp
    next
      case (Num c)
      have "filter (\<lambda>r. emission r = x) rs = filter (\<lambda>r. ?k r = c) rs"
        by (rule filter_cong [OF refl]) (use num Num in auto)
      also have "\<dots> = filter (\<lambda>r. ?k r = c) (results_of d)"
        unfolding rs by (rule sort_key_stable)
      also have "\<dots> = filter (\<lambda>r. emission r = x) (results_of d)"
        by (rule filter_cong [OF refl]) (use num Num set_rs in auto)
      finally have "map mode (filter (\<lambda>r. emission r = x) rs) = map mode (filter (\<lambda>r. emission r = x) (results_of d))"
        by simp
      also have "\<dots> = filter (\<lambda>m. calculateEmission (Num d) m = x) (map fst EMISSION_FACTORS)"
        by (simp add: results_of_def filter_map comp_def)
      finally show ?thesis .
    qed
  qed
qed

lemma length_js_insert: "length (js_insert cmp x ys) = Suc (length ys)"
  by (induction ys) auto

lemma length_js_sort: "length (js_sort cmp xs) = length xs"
  by (induction xs) (simp_all add: js_sort_def length_js_insert)

lemma length_calculateAllModes: "length (calculateAllModes d) = 4"
  by (simp add: calculateAllModes_def Let_def length_js_sort EMISSION_FACTORS_def)

lemma calculateAllModes_430:
  "calculateAllModes (Num 430) =
     [\<lparr>mode = ascii ''bicycle'', emission = Num 0, percentageVsCar = Num 0\<rparr>,
      \<lparr>mode = ascii ''bus'', emission = Num (3827 / 100), percentageVsCar = Num (7417 / 100)\<rparr>,
      \<lparr>mode = ascii ''car'', emission = Num (516 / 10), percentageVsCar = Num 100\<rparr>,
      \<lparr>mode = ascii ''truck'', emission = Num (4128 / 10), percentageVsCar = Num 800\<rparr>]"
  unfolding calculateAllModes_def Let_def EMISSION_FACTORS_def list.map fst_conv calculateEmission_keys
  by (simp add: js_sort_def round_eval)

text \<open>
  Claim C5. For every distance \<open>d \<ge> 0\<close>, \<open>calculateAllModes(d)\<close> holds one result for each
  mode of the factor table, with the emission of that mode; the results ascend by
  emission; and, for each emission value, the modes that have it come in the order in which
  the table declares them. \<open>calculateAllModes(430)\<close> is the four results below: bicycle first
  at 0, then bus, car with \<open>percentageVsCar\<close> 100, and truck.
\<close>

theorem calculateAllModes_sorted_stable:
  assumes "0 \<le> d"
  shows "mset (map mode (calculateAllModes (Num d))) = mset (map fst EMISSION_FACTORS)
    \<and> (\<forall>r \<in> set (calculateAllModes (Num d)). emission r = calculateEmission (Num d) (mode r))
    \<and> sorted_wrt (\<lambda>a b. js_le (emission a) (emission b)) (calculateAllModes (Num d))
    \<and> (\<forall>x. map mode (filter (\<lambda>r. emission r = x) (calculateAllModes (Num d)))
             = filter (\<lambda>m. calculateEmission (Num d) m = x) (map fst EMISSION_FACTORS))
    \<and> calculateAllModes (Num 430) =
         [\<lparr>mode = ascii ''bicycle'', emission = Num 0, percentageVsCar = Num 0\<rparr>,
          \<lparr>mode = ascii ''bus'', emission = Num (3827 / 100), percentageVsCar = Num (7417 / 100)\<rparr>,
          \<lparr>mode = ascii ''car'', emission = Num (516 / 10), percentageVsCar = Num 100\<rparr>,
          \<lparr>mode = ascii ''truck'', emission = Num (4128 / 10), percentageVsCar = Num 800\<rparr>]"
  using calculateAllModes_properties [of d] calculateAllModes_430 by blast

theorem calculateAllModes_sorted_stable_witness:
  "(0 :: rat) \<le> 0
   \<and> map mode (filter (\<lambda>r. emission r = Num 0) (calculateAllModes (Num 0)))
       = [ascii ''bicycle'', ascii ''car'', ascii ''bus'', ascii ''truck'']"
proof -
  have z: "(0 :: rat) \<le> 0" by simp
  have "filter (\<lambda>m. calculateEmission (Num 0) m = Num 0) (map fst EMISSION_FACTORS)
        = [ascii ''bicycle'', ascii ''car'', ascii ''bus'', ascii ''truck'']"
    unfolding EMISSION_FACTORS_def list.map fst_conv
    by (simp add: calculateEmission_keys round_eval)
  with calculateAllModes_sorted_stable [OF z] show ?thesis by simp
qed

lemma map_const_replicate: "\<forall>x \<in> set xs. f x = c \<Longrightarrow> map f xs = replicate (length xs) c"
  by (induction xs) auto

text \<open>
  Claim C6. Whenever the emission of the car is 0, every result of \<open>calculateAllModes\<close> has
  \<open>percentageVsCar\<close> 0: the quotient by the baseline is taken only under \<open>carEmission > 0\<close>.
  The witness is \<open>calculateAllModes(0)\<close>.
\<close>

theorem percentageVsCar_zero_baseline:
  assumes "calculateEmission d (ascii ''car'') = Num 0"
  shows "\<forall>r \<in> set (calculateAllModes d). percentageVsCar r = Num 0"
  using assms by (auto simp: calculateAllModes_def Let_def set_js_sort)

theorem percentageVsCar_zero_baseline_witness:
  "map percentageVsCar (calculateAllModes (Num 0)) = [Num 0, Num 0, Num 0, Num 0]"
proof -
  have "calculateEmission (Num 0) (ascii ''car'') = Num 0"
    by (simp add: calculateEmission_keys round_eval)
  from percentageVsCar_zero_baseline [OF this]
  have "map percentageVsCar (calculateAllModes (Num 0)) = replicate (length (calculateAllModes (Num 0))) (Num 0)"
    by (rule map_const_replicate)
  then show ?thesis by (simp add: length_calculateAllModes numeral_eq_Suc)
qed

section \<open>Negative distances\<close>




section \<open>calculateSavings\<close>

lemma calculateSavings_example:
  "calculateSavings (to_binary64 (3827 / 100)) (to_binary64 (516 / 10)) =
     \<lparr>savedKg = to_binary64 (1333 / 100), percentage = to_binary64 (2583 / 100)\<rparr>"
proof -
  have s1: "to_binary64 (3827 / 100) = Finite (5386023679358403 / 140737488355328)"
    by (rule to_binary64_cert [where e = "5"]) (simp add: round64_eval)
  have s2: "to_binary64 (516 / 10) = Finite (7262054399134925 / 140737488355328)"
    by (rule to_binary64_cert [where e = "5"]) (simp add: round64_eval)
  have s3: "sub64 (Finite (7262054399134925 / 140737488355328)) (Finite (5386023679358403 / 140737488355328)) = Finite (938015359888261 / 70368744177664)"
    by (rule sub64_cert [where e = "3"]) (simp add: round64_eval)
  have s4: "mul64 (Finite (938015359888261 / 70368744177664)) (Finite 100) = Finite (5862595999301631 / 4398046511104)"
    by (rule mul64_cert [where e = "10"]) (simp add: round64_eval)
  have s5: "Math_round64 (Finite (5862595999301631 / 4398046511104)) = Finite 1333"
    by (simp add: floor_rat_numeral_div floor_rat_neg_numeral_div)
  have s6: "div64 (Finite 1333) (Finite 100) = Finite (7504122879106089 / 562949953421312)"
    by (rule div64_cert [where e = "3"]) (simp add: round64_eval)
  have s7: "gt64 (Finite (7262054399134925 / 140737488355328)) (Finite 0) = True"
    by (simp add: gt64_def)
  have s8: "div64 (Finite (7504122879106089 / 562949953421312)) (Finite (7262054399134925 / 140737488355328)) = Finite (581714951868689 / 2251799813685248)"
    by (rule div64_cert [where e = "- 2"]) (simp add: round64_eval)
  have s9: "mul64 (Finite (581714951868689 / 2251799813685248)) (Finite 100) = Finite (1817859224589653 / 70368744177664)"
    by (rule mul64_cert [where e = "4"]) (simp add: round64_eval)
  have s10: "mul64 (Finite (1817859224589653 / 70368744177664)) (Finite 100) = Finite (2840405038421333 / 1099511627776)"
    by (rule mul64_cert [where e = "11"]) (simp add: round64_eval)
  have s11: "Math_round64 (Finite (2840405038421333 / 1099511627776)) = Finite 2583"
    by (simp add: floor_rat_numeral_div floor_rat_neg_numeral_div)
  have s12: "div64 (Finite 2583) (Finite 100) = Finite (1817624662109061 / 70368744177664)"
    by (rule div64_cert [where e = "4"]) (simp add: round64_eval)
  have s13: "to_binary64 (1333 / 100) = Finite (7504122879106089 / 562949953421312)"
    by (rule to_binary64_cert [where e = "3"]) (simp add: round64_eval)
  have s14: "to_binary64 (2583 / 100) = Finite (1817624662109061 / 70368744177664)"
    by (rule to_binary64_cert [where e = "4"]) (simp add: round64_eval)
  show ?thesis
    unfolding calculateSavings_def Let_def
    by (simp only: s1 s2 s3 s4 s5 s6 s7 s8 s9 s10 s11 s12 s13 s14 if_True)
qed

lemma percentage_example_close:
  "\<bar>val64 (to_binary64 (2583 / 100)) - 2584 / 100\<bar> < 1 / 100 + 1 / 10 ^ 14"
proof -
  have s1: "to_binary64 (2583 / 100) = Finite (1817624662109061 / 70368744177664)"
    by (rule to_binary64_cert [where e = "4"]) (simp add: round64_eval)
  show ?thesis unfolding s1 by simp
qed

text \<open>
  At a decimal tie the binary64 result is the one of the engine: the quotient 4.34 / 4.48
  times 100 is below 96.875 in binary64, and \<open>calculateSavings(0.14, 4.48)\<close> has the
  percentage 96.87.
\<close>

lemma calculateSavings_tie:
  "calculateSavings (to_binary64 (14 / 100)) (to_binary64 (448 / 100)) =
     \<lparr>savedKg = to_binary64 (434 / 100), percentage = to_binary64 (9687 / 100)\<rparr>"
proof -
  have s1: "to_binary64 (14 / 100) = Finite (1261007895663739 / 9007199254740992)"
    by (rule to_binary64_cert [where e = "- 3"]) (simp add: round64_eval)
  have s2: "to_binary64 (448 / 100) = Finite (1261007895663739 / 281474976710656)"
    by (rule to_binary64_cert [where e = "2"]) (simp add: round64_eval)
  have s3: "sub64 (Finite (1261007895663739 / 281474976710656)) (Finite (1261007895663739 / 9007199254740992)) = Finite (4886405595696989 / 1125899906842624)"
    by (rule sub64_cert [where e = "2"]) (simp add: round64_eval)
  have s4: "mul64 (Finite (4886405595696989 / 1125899906842624)) (Finite 100) = Finite (7635008743276545 / 17592186044416)"
    by (rule mul64_cert [where e = "8"]) (simp add: round64_eval)
  have s5: "Math_round64 (Finite (7635008743276545 / 17592186044416)) = Finite 434"
    by (simp add: floor_rat_numeral_div floor_rat_neg_numeral_div)
  have s6: "div64 (Finite 434) (Finite 100) = Finite (1221601398924247 / 281474976710656)"
    by (rule div64_cert [where e = "2"]) (simp add: round64_eval)
  have s7: "gt64 (Finite (1261007895663739 / 281474976710656)) (Finite 0) = True"
    by (simp add: gt64_def)
  have s8: "div64 (Finite (1221601398924247 / 281474976710656)) (Finite (1261007895663739 / 281474976710656)) = Finite (8725724278030335 / 9007199254740992)"
    by (rule div64_cert [where e = "- 1"]) (simp add: round64_eval)
  have s9: "mul64 (Finite (8725724278030335 / 9007199254740992)) (Finite 100) = Finite (6816972092211199 / 70368744177664)"
    by (rule mul64_cert [where e = "6"]) (simp add: round64_eval)
  have s10: "mul64 (Finite (6816972092211199 / 70368744177664)) (Finite 100) = Finite (5325759447039999 / 549755813888)"
    by (rule mul64_cert [where e = "13"]) (simp add: round64_eval)
  have s11: "Math_round64 (Finite (5325759447039999 / 549755813888)) = Finite 9687"
    by (simp add: floor_rat_numeral_div floor_rat_neg_numeral_div)
  have s12: "div64 (Finite 9687) (Finite 100) = Finite (852077531061289 / 8796093022208)"
    by (rule div64_cert [where e = "6"]) (simp add: round64_eval)
  have s13: "to_binary64 (434 / 100) = Finite (1221601398924247 / 281474976710656)"
    by (rule to_binary64_cert [where e = "2"]) (simp add: round64_eval)
  have s14: "to_binary64 (9687 / 100) = Finite (852077531061289 / 8796093022208)"
    by (rule to_binary64_cert [where e = "6"]) (simp add: round64_eval)
  show ?thesis
    unfolding calculateSavings_def Let_def
    by (simp only: s1 s2 s3 s4 s5 s6 s7 s8 s9 s10 s11 s12 s13 s14 if_True)
qed

text \<open>
  Claim C4. With \<open>round(x, 2)\<close> the rounding of the platform, \<open>Math.round(x * 100) / 100\<close> in
  binary64, \<open>calculateSavings(emission, baseline)\<close> returns
  \<open>savedKg = round(baseline - emission, 2)\<close> and
  \<open>percentage = round((savedKg / baseline) * 100, 2)\<close> when \<open>baseline > 0\<close>, else
  \<open>percentage = 0\<close>, for all binary64 arguments. \<open>calculateSavings(38.27, 51.6)\<close> yields
  \<open>savedKg = 13.33\<close> and the percentage 25.83, which is 25.84 to within a hundredth (and
  the representation error of 25.83, below \<open>10^-14\<close>).
\<close>

theorem calculateSavings_formula:
  "calculateSavings e b =
     \<lparr>savedKg = round2 (sub64 b e),
      percentage =
        (if gt64 b (Finite 0)
         then round2 (mul64 (div64 (round2 (sub64 b e)) b) (Finite 100))
         else Finite 0)\<rparr>
   \<and> calculateSavings (to_binary64 (3827 / 100)) (to_binary64 (516 / 10)) =
     \<lparr>savedKg = to_binary64 (1333 / 100), percentage = to_binary64 (2583 / 100)\<rparr>
   \<and> \<bar>val64 (percentage (calculateSavings (to_binary64 (3827 / 100)) (to_binary64 (516 / 10))))
        - 2584 / 100\<bar> < 1 / 100 + 1 / 10 ^ 14"
proof -
  have "calculateSavings e b =
     \<lparr>savedKg = round2 (sub64 b e),
      percentage =
        (if gt64 b (Finite 0)
         then round2 (mul64 (div64 (round2 (sub64 b e)) b) (Finite 100))
         else Finite 0)\<rparr>"
    by (simp add: calculateSavings_def round2_def Let_def)
  then show ?thesis
    using calculateSavings_example percentage_example_close by simp
qed

theorem calculateSavings_formula_witness:
  "calculateSavings (Finite 5) (Finite 10) = \<lparr>savedKg = Finite 5, percentage = Finite 50\<rparr>
   \<and> calculateSavings (Finite 5) (Finite 0) = \<lparr>savedKg = Finite (- 5), percentage = Finite 0\<rparr>"
proof -
  have s1: "sub64 (Finite 10) (Finite 5) = Finite 5"
    by (rule sub64_cert [where e = "2"]) (simp add: round64_eval)
  have s2: "mul64 (Finite 5) (Finite 100) = Finite 500"
    by (rule mul64_cert [where e = "8"]) (simp add: round64_eval)
  have s3: "Math_round64 (Finite 500) = Finite 500"
    by (simp add: floor_rat_numeral_div floor_rat_neg_numeral_div)
  have s4: "div64 (Finite 500) (Finite 100) = Finite 5"
    by (rule div64_cert [where e = "2"]) (simp add: round64_eval)
  have s5: "gt64 (Finite 10) (Finite 0) = True"
    by (simp add: gt64_def)
  have s6: "div64 (Finite 5) (Finite 10) = Finite (1 / 2)"
    by (rule div64_cert [where e = "- 1"]) (simp add: round64_eval)
  have s7: "mul64 (Finite (1 / 2)) (Finite 100) = Finite 50"
    by (rule mul64_cert [where e = "5"]) (simp add: round64_eval)
  have s8: "mul64 (Finite 50) (Finite 100) = Finite 5000"
    by (rule mul64_cert [where e = "12"]) (simp add: round64_eval)
  have s9: "Math_round64 (Finite 5000) = Finite 5000"
    by (simp add: floor_rat_numeral_div floor_rat_neg_numeral_div)
  have s10: "div64 (Finite 5000) (Finite 100) = Finite 50"
    by (rule div64_cert [where e = "5"]) (simp add: round64_eval)
  have s11: "sub64 (Finite 0) (Finite 5) = Finite (- 5)"
    by (rule sub64_cert [where e = "2"]) (simp add: round64_eval)
  have s12: "mul64 (Finite (- 5)) (Finite 100) = Finite (- 500)"
    by (rule mul64_cert [where e = "8"]) (simp add: round64_eval)
  have s13: "Math_round64 (Finite (- 500)) = Finite (- 500)"
    by (simp add: floor_rat_numeral_div floor_rat_neg_numeral_div)
  have s14: "div64 (Finite (- 500)) (Finite 100) = Finite (- 5)"
    by (rule div64_cert [where e = "2"]) (simp add: round64_eval)
  have s15: "gt64 (Finite 0) (Finite 0) = False"
    by (simp add: gt64_def)
  have "calculateSavings (Finite 5) (Finite 10) = \<lparr>savedKg = Finite 5, percentage = Finite 50\<rparr>"
    using calculateSavings_formula [of "Finite 5" "Finite 10"]
    by (simp only: round2_def s1 s2 s3 s4 s5 s6 s7 s8 s9 s10 s11 s12 s13 s14 s15 if_True)
  moreover have "calculateSavings (Finite 5) (Finite 0) = \<lparr>savedKg = Finite (- 5), percentage = Finite 0\<rparr>"
    using calculateSavings_formula [of "Finite 5" "Finite 0"]
    by (simp only: round2_def s1 s2 s3 s4 s5 s6 s7 s8 s9 s10 s11 s12 s13 s14 s15 if_False)
  ultimately show ?thesis by (rule conjI)
qed

section \<open>Carbon credits\<close>


lemma binary64_of_config:
  "binary64_of KG_PER_CREDIT = Finite 1000"
  "binary64_of PRICE_MIN_BRL = Finite 50"
  "binary64_of PRICE_MAX_BRL = Finite 150"
  unfolding KG_PER_CREDIT_def PRICE_MIN_BRL_def PRICE_MAX_BRL_def binary64_of.simps
  by (rule to_binary64_cert [where e = 9], simp add: round64_eval,
      rule to_binary64_cert [where e = 5], simp add: round64_eval,
      rule to_binary64_cert [where e = 7], simp add: round64_eval)

lemma calculateCarbonCredits_1000:
  "calculateCarbonCredits (Finite 1000) = Finite 1"
proof -
  have s1: "div64 (Finite 1000) (Finite 1000) = Finite 1"
    by (rule div64_cert [where e = "0"]) (simp add: round64_eval)
  have s2: "mul64 (Finite 1) (Finite 10000) = Finite 10000"
    by (rule mul64_cert [where e = "13"]) (simp add: round64_eval)
  have s3: "Math_round64 (Finite 10000) = Finite 10000"
    by (simp add: floor_rat_numeral_div floor_rat_neg_numeral_div)
  have s4: "div64 (Finite 10000) (Finite 10000) = Finite 1"
    by (rule div64_cert [where e = "0"]) (simp add: round64_eval)
  show ?thesis
    unfolding calculateCarbonCredits_def Let_def binary64_of_config
    by (simp only: s1 s2 s3 s4 )
qed

lemma estimateCreditPrice_1:
  "estimateCreditPrice_binary64 (Finite 1) =
     \<lparr>min_price = Finite 50, max_price = Finite 150, average = Finite 100\<rparr>"
proof -
  have s1: "mul64 (Finite 1) (Finite 50) = Finite 50"
    by (rule mul64_cert [where e = "5"]) (simp add: round64_eval)
  have s2: "mul64 (Finite 50) (Finite 100) = Finite 5000"
    by (rule mul64_cert [where e = "12"]) (simp add: round64_eval)
  have s3: "Math_round64 (Finite 5000) = Finite 5000"
    by (simp add: floor_rat_numeral_div floor_rat_neg_numeral_div)
  have s4: "div64 (Finite 5000) (Finite 100) = Finite 50"
    by (rule div64_cert [where e = "5"]) (simp add: round64_eval)
  have s5: "mul64 (Finite 1) (Finite 150) = Finite 150"
    by (rule mul64_cert [where e = "7"]) (simp add: round64_eval)
  have s6: "mul64 (Finite 150) (Finite 100) = Finite 15000"
    by (rule mul64_cert [where e = "13"]) (simp add: round64_eval)
  have s7: "Math_round64 (Finite 15000) = Finite 15000"
    by (simp add: floor_rat_numeral_div floor_rat_neg_numeral_div)
  have s8: "div64 (Finite 15000) (Finite 100) = Finite 150"
    by (rule div64_cert [where e = "7"]) (simp add: round64_eval)
  have s9: "add64 (Finite 50) (Finite 150) = Finite 200"
    by (rule add64_cert [where e = "7"]) (simp add: round64_eval)
  have s10: "div64 (Finite 200) (Finite 2) = Finite 100"
    by (rule div64_cert [where e = "6"]) (simp add: round64_eval)
  have s11: "mul64 (Finite 100) (Finite 100) = Finite 10000"
    by (rule mul64_cert [where e = "13"]) (simp add: round64_eval)
  have s12: "Math_round64 (Finite 10000) = Finite 10000"
    by (simp add: floor_rat_numeral_div floor_rat_neg_numeral_div)
  have s13: "div64 (Finite 10000) (Finite 100) = Finite 100"
    by (rule div64_cert [where e = "6"]) (simp add: round64_eval)
  show ?thesis
    unfolding estimateCreditPrice_binary64_def Let_def binary64_of_config
    by (simp only: s1 s2 s3 s4 s5 s6 s7 s8 s9 s10 s11 s12 s13 )
qed

lemma estimateCreditPrice_small:
  "estimateCreditPrice_binary64 (to_binary64 (34 / 1000000)) =
     \<lparr>min_price = Finite 0, max_price = to_binary64 (1 / 100), average = to_binary64 (1 / 100)\<rparr>"
proof -
  have s1: "to_binary64 (34 / 1000000) = Finite (2508757194024499 / 73786976294838206464)"
    by (rule to_binary64_cert [where e = "- 15"]) (simp add: round64_eval)
  have s2: "mul64 (Finite (2508757194024499 / 73786976294838206464)) (Finite 50) = Finite (7839866231326559 / 4611686018427387904)"
    by (rule mul64_cert [where e = "- 10"]) (simp add: round64_eval)
  have s3: "mul64 (Finite (7839866231326559 / 4611686018427387904)) (Finite 100) = Finite (3062447746611937 / 18014398509481984)"
    by (rule mul64_cert [where e = "- 3"]) (simp add: round64_eval)
  have s4: "Math_round64 (Finite (3062447746611937 / 18014398509481984)) = Finite 0"
    by (simp add: floor_rat_numeral_div floor_rat_neg_numeral_div)
  have s5: "div64 (Finite 0) (Finite 100) = Finite 0"
    by (simp add: div64.simps sub64_def add64.simps is_zero64_def zero64_def)
  have s6: "mul64 (Finite (2508757194024499 / 73786976294838206464)) (Finite 150) = Finite (734987459186865 / 144115188075855872)"
    by (rule mul64_cert [where e = "- 8"]) (simp add: round64_eval)
  have s7: "mul64 (Finite (734987459186865 / 144115188075855872)) (Finite 100) = Finite (2296835809958953 / 4503599627370496)"
    by (rule mul64_cert [where e = "- 1"]) (simp add: round64_eval)
  have s8: "Math_round64 (Finite (2296835809958953 / 4503599627370496)) = Finite 1"
    by (simp add: floor_rat_numeral_div floor_rat_neg_numeral_div)
  have s9: "div64 (Finite 1) (Finite 100) = Finite (5764607523034235 / 576460752303423488)"
    by (rule div64_cert [where e = "- 7"]) (simp add: round64_eval)
  have s10: "add64 (Finite 0) (Finite (5764607523034235 / 576460752303423488)) = Finite (5764607523034235 / 576460752303423488)"
    by (rule add64_cert [where e = "- 7"]) (simp add: round64_eval)
  have s11: "div64 (Finite (5764607523034235 / 576460752303423488)) (Finite 2) = Finite (5764607523034235 / 1152921504606846976)"
    by (rule div64_cert [where e = "- 8"]) (simp add: round64_eval)
  have s12: "mul64 (Finite (5764607523034235 / 1152921504606846976)) (Finite 100) = Finite (1 / 2)"
    by (rule mul64_cert [where e = "- 1"]) (simp add: round64_eval)
  have s13: "Math_round64 (Finite (1 / 2)) = Finite 1"
    by (simp add: floor_rat_numeral_div floor_rat_neg_numeral_div)
  have s14: "to_binary64 (1 / 100) = Finite (5764607523034235 / 576460752303423488)"
    by (rule to_binary64_cert [where e = "- 7"]) (simp add: round64_eval)
  show ?thesis
    unfolding estimateCreditPrice_binary64_def Let_def binary64_of_config
    by (simp only: s1 s2 s3 s4 s5 s6 s7 s8 s9 s10 s11 s12 s13 s14 )
qed

lemma estimateCreditPrice_small_unrounded:
  "round2 (div64 (add64 (mul64 (to_binary64 (34 / 1000000)) (binary64_of PRICE_MIN_BRL))
       (mul64 (to_binary64 (34 / 1000000)) (binary64_of PRICE_MAX_BRL))) (Finite 2)) = Finite 0"
proof -
  have s1: "to_binary64 (34 / 1000000) = Finite (2508757194024499 / 73786976294838206464)"
    by (rule to_binary64_cert [where e = "- 15"]) (simp add: round64_eval)
  have s2: "mul64 (Finite (2508757194024499 / 73786976294838206464)) (Finite 50) = Finite (7839866231326559 / 4611686018427387904)"
    by (rule mul64_cert [where e = "- 10"]) (simp add: round64_eval)
  have s3: "mul64 (Finite (2508757194024499 / 73786976294838206464)) (Finite 150) = Finite (734987459186865 / 144115188075855872)"
    by (rule mul64_cert [where e = "- 8"]) (simp add: round64_eval)
  have s4: "add64 (Finite (7839866231326559 / 4611686018427387904)) (Finite (734987459186865 / 144115188075855872)) = Finite (244995819728955 / 36028797018963968)"
    by (rule add64_cert [where e = "- 8"]) (simp add: round64_eval)
  have s5: "div64 (Finite (244995819728955 / 36028797018963968)) (Finite 2) = Finite (244995819728955 / 72057594037927936)"
    by (rule div64_cert [where e = "- 9"]) (simp add: round64_eval)
  have s6: "mul64 (Finite (244995819728955 / 72057594037927936)) (Finite 100) = Finite (6124895493223875 / 18014398509481984)"
    by (rule mul64_cert [where e = "- 2"]) (simp add: round64_eval)
  have s7: "Math_round64 (Finite (6124895493223875 / 18014398509481984)) = Finite 0"
    by (simp add: floor_rat_numeral_div floor_rat_neg_numeral_div)
  have s8: "div64 (Finite 0) (Finite 100) = Finite 0"
    by (simp add: div64.simps sub64_def add64.simps is_zero64_def zero64_def)
  show ?thesis
    unfolding round2_def binary64_of_config
    by (simp only: s1 s2 s3 s4 s5 s6 s7 s8 )
qed

text \<open>
  At decimal ties the binary64 results are those of the engine: 0.0007 * 50 * 100 is below
  3.5 in binary64, and \<open>estimateCreditPrice(0.0007)\<close> is \<open>{min: 0.03, max: 0.11, average: 0.07}\<close>;
  \<open>calculateCarbonCredits(0.15)\<close> is 0.0001.
\<close>

lemma estimateCreditPrice_tie:
  "estimateCreditPrice_binary64 (to_binary64 (7 / 10000)) =
     \<lparr>min_price = to_binary64 (3 / 100), max_price = to_binary64 (11 / 100), average = to_binary64 (7 / 100)\<rparr>"
proof -
  have s1: "to_binary64 (7 / 10000) = Finite (6456360425798343 / 9223372036854775808)"
    by (rule to_binary64_cert [where e = "- 11"]) (simp add: round64_eval)
  have s2: "mul64 (Finite (6456360425798343 / 9223372036854775808)) (Finite 50) = Finite (5044031582654955 / 144115188075855872)"
    by (rule mul64_cert [where e = "- 5"]) (simp add: round64_eval)
  have s3: "mul64 (Finite (5044031582654955 / 144115188075855872)) (Finite 100) = Finite (7881299347898367 / 2251799813685248)"
    by (rule mul64_cert [where e = "1"]) (simp add: round64_eval)
  have s4: "Math_round64 (Finite (7881299347898367 / 2251799813685248)) = Finite 3"
    by (simp add: floor_rat_numeral_div floor_rat_neg_numeral_div)
  have s5: "div64 (Finite 3) (Finite 100) = Finite (1080863910568919 / 36028797018963968)"
    by (rule div64_cert [where e = "- 6"]) (simp add: round64_eval)
  have s6: "mul64 (Finite (6456360425798343 / 9223372036854775808)) (Finite 150) = Finite (7566047373982433 / 72057594037927936)"
    by (rule mul64_cert [where e = "- 4"]) (simp add: round64_eval)
  have s7: "mul64 (Finite (7566047373982433 / 72057594037927936)) (Finite 100) = Finite (21 / 2)"
    by (rule mul64_cert [where e = "3"]) (simp add: round64_eval)
  have s8: "Math_round64 (Finite (21 / 2)) = Finite 11"
    by (simp add: floor_rat_numeral_div floor_rat_neg_numeral_div)
  have s9: "div64 (Finite 11) (Finite 100) = Finite (7926335344172073 / 72057594037927936)"
    by (rule div64_cert [where e = "- 4"]) (simp add: round64_eval)
  have s10: "add64 (Finite (1080863910568919 / 36028797018963968)) (Finite (7926335344172073 / 72057594037927936)) = Finite (1261007895663739 / 9007199254740992)"
    by (rule add64_cert [where e = "- 3"]) (simp add: round64_eval)
  have s11: "div64 (Finite (1261007895663739 / 9007199254740992)) (Finite 2) = Finite (1261007895663739 / 18014398509481984)"
    by (rule div64_cert [where e = "- 4"]) (simp add: round64_eval)
  have s12: "mul64 (Finite (1261007895663739 / 18014398509481984)) (Finite 100) = Finite (7881299347898369 / 1125899906842624)"
    by (rule mul64_cert [where e = "2"]) (simp add: round64_eval)
  have s13: "Math_round64 (Finite (7881299347898369 / 1125899906842624)) = Finite 7"
    by (simp add: floor_rat_numeral_div floor_rat_neg_numeral_div)
  have s14: "div64 (Finite 7) (Finite 100) = Finite (1261007895663739 / 18014398509481984)"
    by (rule div64_cert [where e = "- 4"]) (simp add: round64_eval)
  have s15: "to_binary64 (3 / 100) = Finite (1080863910568919 / 36028797018963968)"
    by (rule to_binary64_cert [where e = "- 6"]) (simp add: round64_eval)
  have s16: "to_binary64 (11 / 100) = Finite (7926335344172073 / 72057594037927936)"
    by (rule to_binary64_cert [where e = "- 4"]) (simp add: round64_eval)
  have s17: "to_binary64 (7 / 100) = Finite (1261007895663739 / 18014398509481984)"
    by (rule to_binary64_cert [where e = "- 4"]) (simp add: round64_eval)
  show ?thesis
    unfolding estimateCreditPrice_binary64_def Let_def binary64_of_config
    by (simp only: s1 s2 s3 s4 s5 s6 s7 s8 s9 s10 s11 s12 s13 s14 s15 s16 s17 )
qed

lemma calculateCarbonCredits_tie:
  "calculateCarbonCredits (to_binary64 (15 / 100)) = to_binary64 (1 / 10000)"
proof -
  have s1: "to_binary64 (15 / 100) = Finite (5404319552844595 / 36028797018963968)"
    by (rule to_binary64_cert [where e = "- 3"]) (simp add: round64_eval)
  have s2: "div64 (Finite (5404319552844595 / 36028797018963968)) (Finite 1000) = Finite (5534023222112865 / 36893488147419103232)"
    by (rule div64_cert [where e = "- 13"]) (simp add: round64_eval)
  have s3: "mul64 (Finite (5534023222112865 / 36893488147419103232)) (Finite 10000) = Finite (6755399441055743 / 4503599627370496)"
    by (rule mul64_cert [where e = "0"]) (simp add: round64_eval)
  have s4: "Math_round64 (Finite (6755399441055743 / 4503599627370496)) = Finite 1"
    by (simp add: floor_rat_numeral_div floor_rat_neg_numeral_div)
  have s5: "div64 (Finite 1) (Finite 10000) = Finite (7378697629483821 / 73786976294838206464)"
    by (rule div64_cert [where e = "- 14"]) (simp add: round64_eval)
  have s6: "to_binary64 (1 / 10000) = Finite (7378697629483821 / 73786976294838206464)"
    by (rule to_binary64_cert [where e = "- 14"]) (simp add: round64_eval)
  show ?thesis
    unfolding calculateCarbonCredits_def Let_def binary64_of_config
    by (simp only: s1 s2 s3 s4 s5 s6 )
qed

text \<open>
  Claim C7. With \<open>round(x, 2)\<close> the rounding of the platform, \<open>Math.round(x * 100) / 100\<close> in
  binary64, \<open>estimateCreditPrice(credits)\<close> returns \<open>min = round(credits * PRICE_MIN_BRL, 2)\<close>,
  \<open>max = round(credits * PRICE_MAX_BRL, 2)\<close> and \<open>average = round((min + max) / 2, 2)\<close> of
  the \<open>min\<close> and \<open>max\<close> that it returns, which are rounded already, for every binary64
  argument. \<open>calculateCarbonCredits(1000)\<close> is 1, and \<open>estimateCreditPrice(1)\<close>, with the
  prices 50 and 150 of the configuration, is \<open>{min: 50, max: 150, average: 100}\<close>. At
  0.000034 credits the average is 0.01, while the average of the two products before
  rounding rounds to 0.
\<close>

theorem estimateCreditPrice_formula:
  "estimateCreditPrice_binary64 c =
     \<lparr>min_price = round2 (mul64 c (binary64_of PRICE_MIN_BRL)),
      max_price = round2 (mul64 c (binary64_of PRICE_MAX_BRL)),
      average = round2 (div64 (add64 (min_price (estimateCreditPrice_binary64 c))
                                     (max_price (estimateCreditPrice_binary64 c))) (Finite 2))\<rparr>
   \<and> calculateCarbonCredits (Finite 1000) = Finite 1
   \<and> binary64_of PRICE_MIN_BRL = Finite 50 \<and> binary64_of PRICE_MAX_BRL = Finite 150
   \<and> estimateCreditPrice_binary64 (Finite 1) =
       \<lparr>min_price = Finite 50, max_price = Finite 150, average = Finite 100\<rparr>
   \<and> average (estimateCreditPrice_binary64 (to_binary64 (34 / 1000000))) = to_binary64 (1 / 100)
   \<and> round2 (div64 (add64 (mul64 (to_binary64 (34 / 1000000)) (binary64_of PRICE_MIN_BRL))
       (mul64 (to_binary64 (34 / 1000000)) (binary64_of PRICE_MAX_BRL))) (Finite 2)) = Finite 0"
proof -
  have "estimateCreditPrice_binary64 c =
     \<lparr>min_price = round2 (mul64 c (binary64_of PRICE_MIN_BRL)),
      max_price = round2 (mul64 c (binary64_of PRICE_MAX_BRL)),
      average = round2 (div64 (add64 (min_price (estimateCreditPrice_binary64 c))
                                     (max_price (estimateCreditPrice_binary64 c))) (Finite 2))\<rparr>"
    by (simp add: estimateCreditPrice_binary64_def round2_def Let_def)
  moreover have "average (estimateCreditPrice_binary64 (to_binary64 (34 / 1000000))) = to_binary64 (1 / 100)"
    by (simp only: estimateCreditPrice_small credit_price.select_convs)
  ultimately show ?thesis
    using calculateCarbonCredits_1000 binary64_of_config(2,3) estimateCreditPrice_1
      estimateCreditPrice_small_unrounded
    by (simp only: simp_thms)
qed




end
